theory Spec2Isabelle
  imports Complex_Main
begin

section \<open>Doubles\<close>

text \<open>
  A C++ \<^verbatim>\<open>double\<close> is a finite number, one of the two infinities, or NaN.
  The finite numbers are carried by \<^typ>\<open>real\<close>. A sum, product, quotient or root of
  finite operands is the exact real number here, where the machine gives the nearest
  double: rounding, overflow of a finite result to an infinity, underflow to zero and the
  sign of zero are outside this model. What the model keeps is what the program's
  control flow tests: the order of the finite numbers, the infinities, NaN, and the IEEE
  rules by which they propagate and compare (every ordered comparison with NaN is false).
  A decimal literal of the sources stands for the double it denotes, written as a
  fraction with a power of two below.

  For that reason the general statements below do not say what value a chain of rounded
  operations reaches (that a quotient of finite numbers is finite, that the quotients of
  a normalisation sum to \<open>1\<close>, that a product of factors gives a matrix back). They say
  which branch the program takes, which operations it applies to which operands, and in
  which order. The concrete inputs are small integers, halves and quarters, and
  infinities and NaN, on which the machine's arithmetic gives the same values.
\<close>

datatype dbl = Fin real | PInf | NInf | NaN

fun isnan :: "dbl \<Rightarrow> bool" where
  "isnan NaN = True"
| "isnan _ = False"

fun dneg :: "dbl \<Rightarrow> dbl" where
  "dneg (Fin a) = Fin (- a)"
| "dneg PInf = NInf"
| "dneg NInf = PInf"
| "dneg NaN = NaN"

fun dadd :: "dbl \<Rightarrow> dbl \<Rightarrow> dbl" where
  "dadd (Fin a) (Fin b) = Fin (a + b)"
| "dadd NaN _ = NaN"
| "dadd _ NaN = NaN"
| "dadd PInf NInf = NaN"
| "dadd NInf PInf = NaN"
| "dadd PInf _ = PInf"
| "dadd _ PInf = PInf"
| "dadd NInf _ = NInf"
| "dadd _ NInf = NInf"

definition dsub :: "dbl \<Rightarrow> dbl \<Rightarrow> dbl" where
  "dsub a b = dadd a (dneg b)"

text \<open>The sign of an infinite product or quotient: \<open>True\<close> is positive.\<close>

definition signed_inf :: "bool \<Rightarrow> dbl" where
  "signed_inf pos = (if pos then PInf else NInf)"

fun dmul :: "dbl \<Rightarrow> dbl \<Rightarrow> dbl" where
  "dmul (Fin a) (Fin b) = Fin (a * b)"
| "dmul NaN _ = NaN"
| "dmul _ NaN = NaN"
| "dmul PInf (Fin b) = (if b = 0 then NaN else signed_inf (0 < b))"
| "dmul NInf (Fin b) = (if b = 0 then NaN else signed_inf (b < 0))"
| "dmul (Fin a) PInf = (if a = 0 then NaN else signed_inf (0 < a))"
| "dmul (Fin a) NInf = (if a = 0 then NaN else signed_inf (a < 0))"
| "dmul PInf PInf = PInf"
| "dmul NInf NInf = PInf"
| "dmul PInf NInf = NInf"
| "dmul NInf PInf = NInf"

text \<open>Division; a finite zero divisor counts as \<open>+0\<close>.\<close>

fun ddiv :: "dbl \<Rightarrow> dbl \<Rightarrow> dbl" where
  "ddiv (Fin a) (Fin b) =
     (if b = 0 then (if a = 0 then NaN else signed_inf (0 < a)) else Fin (a / b))"
| "ddiv NaN _ = NaN"
| "ddiv _ NaN = NaN"
| "ddiv (Fin a) PInf = Fin 0"
| "ddiv (Fin a) NInf = Fin 0"
| "ddiv PInf (Fin b) = signed_inf (0 \<le> b)"
| "ddiv NInf (Fin b) = signed_inf (b < 0)"
| "ddiv PInf PInf = NaN"
| "ddiv PInf NInf = NaN"
| "ddiv NInf PInf = NaN"
| "ddiv NInf NInf = NaN"

fun dlt :: "dbl \<Rightarrow> dbl \<Rightarrow> bool" where
  "dlt (Fin a) (Fin b) = (a < b)"
| "dlt NaN _ = False"
| "dlt _ NaN = False"
| "dlt _ NInf = False"
| "dlt PInf _ = False"
| "dlt NInf _ = True"
| "dlt _ PInf = True"

fun deq :: "dbl \<Rightarrow> dbl \<Rightarrow> bool" where
  "deq NaN _ = False"
| "deq _ NaN = False"
| "deq a b = (a = b)"

definition dgt :: "dbl \<Rightarrow> dbl \<Rightarrow> bool" where
  "dgt a b = dlt b a"

definition dle :: "dbl \<Rightarrow> dbl \<Rightarrow> bool" where
  "dle a b = (dlt a b \<or> deq a b)"

definition dge :: "dbl \<Rightarrow> dbl \<Rightarrow> bool" where
  "dge a b = dle b a"

text \<open>\<^verbatim>\<open>std::fabs\<close> and \<^verbatim>\<open>std::sqrt\<close>.\<close>

fun fabs :: "dbl \<Rightarrow> dbl" where
  "fabs (Fin a) = Fin \<bar>a\<bar>"
| "fabs PInf = PInf"
| "fabs NInf = PInf"
| "fabs NaN = NaN"

fun dsqrt :: "dbl \<Rightarrow> dbl" where
  "dsqrt (Fin a) = (if a < 0 then NaN else Fin (sqrt a))"
| "dsqrt PInf = PInf"
| "dsqrt NInf = NaN"
| "dsqrt NaN = NaN"

text \<open>
  \<^verbatim>\<open>std::max(a, b)\<close> is \<^verbatim>\<open>(a < b) ? b : a\<close> and \<^verbatim>\<open>std::clamp(v, lo, hi)\<close> is
  \<^verbatim>\<open>(v < lo) ? lo : (hi < v) ? hi : v\<close>.
\<close>

definition std_max :: "dbl \<Rightarrow> dbl \<Rightarrow> dbl" where
  "std_max a b = (if dlt a b then b else a)"

definition std_clamp :: "dbl \<Rightarrow> dbl \<Rightarrow> dbl \<Rightarrow> dbl" where
  "std_clamp v lo hi = (if dlt v lo then lo else if dlt hi v then hi else v)"

text \<open>\<^verbatim>\<open>std::accumulate(begin, end, 0.0)\<close>: a left fold from \<open>0.0\<close>.\<close>

definition accumulate :: "dbl list \<Rightarrow> dbl" where
  "accumulate ws = foldl dadd (Fin 0) ws"

text \<open>
  \<^verbatim>\<open>std::numeric_limits<double>::max()\<close>, \<^verbatim>\<open>lowest()\<close> and \<^verbatim>\<open>infinity()\<close>, and
  the tolerance \<^verbatim>\<open>EPSILON\<close> of Constraints.hpp, the double that \<^verbatim>\<open>1e-8\<close> denotes.
  The other decimal literals of the sources are \<^verbatim>\<open>1e-12\<close>, \<^verbatim>\<open>0.05\<close> and \<^verbatim>\<open>0.7\<close>.
\<close>

definition numeric_max :: dbl where
  "numeric_max = Fin (2 ^ 1024 - 2 ^ 971)"

definition lowest :: dbl where
  "lowest = Fin (- (2 ^ 1024 - 2 ^ 971))"

definition infinity :: dbl where
  "infinity = PInf"

definition EPSILON :: dbl where
  "EPSILON = Fin (3022314549036573 / 2 ^ 78)"

abbreviation lit_1e_12 :: real where
  "lit_1e_12 \<equiv> 4951760157141521 / 2 ^ 92"

abbreviation lit_0_05 :: real where
  "lit_0_05 \<equiv> 3602879701896397 / 2 ^ 56"

abbreviation lit_0_7 :: real where
  "lit_0_7 \<equiv> 3152519739159347 / 2 ^ 52"

section \<open>Errors\<close>

text \<open>Every \<^verbatim>\<open>throw\<close> of the sources is one constructor, named after where it is raised.\<close>

datatype error =
    MatrixRaggedRows
  | DotDimensionMismatch
  | AddDimensionMismatch
  | SubDimensionMismatch
  | CholeskyNotSquare
  | NotPositiveDefinite
  | CovarianceTooFewRows
  | PortfolioTooFewRows
  | PortfolioNoAssets
  | ReturnSizeMismatch
  | VarianceSizeMismatch
  | WeightsSumNotOne
  | BoundsViolated
  | TargetSizeMismatch
  | TargetBelow
  | RandomWeightsZeroSize
  | DotProductSizeMismatch
  | NormalizeZeroSum
  | IndexOutOfRange

section \<open>Matrix\<close>

record Matrix =
  rows :: nat
  cols :: nat
  data :: "dbl list list"

text \<open>The class invariant: \<open>rows\<close> rows of \<open>cols\<close> entries each.\<close>

definition matrix_ok :: "Matrix \<Rightarrow> bool" where
  "matrix_ok m = (length (data m) = rows m \<and> list_all (\<lambda>r. length r = cols m) (data m))"

text \<open>\<^verbatim>\<open>Matrix(r, c)\<close>: the zero matrix.\<close>

definition Matrix_zero :: "nat \<Rightarrow> nat \<Rightarrow> Matrix" where
  "Matrix_zero r c = \<lparr>rows = r, cols = c, data = replicate r (replicate c (Fin 0))\<rparr>"

text \<open>\<^verbatim>\<open>Matrix(d)\<close>: from a table, whose rows must all be as long as the first.\<close>

definition Matrix_of :: "dbl list list \<Rightarrow> error + Matrix" where
  "Matrix_of d =
     (case d of
        [] \<Rightarrow> Inr \<lparr>rows = 0, cols = 0, data = d\<rparr>
      | first # _ \<Rightarrow>
          if list_ex (\<lambda>row. length row \<noteq> length first) d then Inl MatrixRaggedRows
          else Inr \<lparr>rows = length d, cols = length first, data = d\<rparr>)"

text \<open>
  \<^verbatim>\<open>operator()(r, c)\<close> reads and \<^verbatim>\<open>m(r, c) = v\<close> writes one cell. Neither checks its
  indices; every caller below stays inside the matrix.
\<close>

definition cell :: "Matrix \<Rightarrow> nat \<Rightarrow> nat \<Rightarrow> dbl" where
  "cell m r c = data m ! r ! c"

definition set_cell :: "Matrix \<Rightarrow> nat \<Rightarrow> nat \<Rightarrow> dbl \<Rightarrow> Matrix" where
  "set_cell m r c v = m\<lparr>data := (data m)[r := (data m ! r)[c := v]]\<rparr>"

text \<open>A loop whose body may throw: the first error ends it.\<close>

fun try_fold :: "('s \<Rightarrow> 'a \<Rightarrow> error + 's) \<Rightarrow> 'a list \<Rightarrow> 's \<Rightarrow> error + 's" where
  "try_fold f [] s = Inr s"
| "try_fold f (x # xs) s = (case f s x of Inl e \<Rightarrow> Inl e | Inr s' \<Rightarrow> try_fold f xs s')"

definition transpose_m :: "Matrix \<Rightarrow> Matrix" where
  "transpose_m m =
     foldl (\<lambda>result i. foldl (\<lambda>result j. set_cell result j i (data m ! i ! j)) result [0..<cols m])
       (Matrix_zero (cols m) (rows m)) [0..<rows m]"

definition dot :: "Matrix \<Rightarrow> Matrix \<Rightarrow> error + Matrix" where
  "dot m other =
     (if cols m \<noteq> rows other then Inl DotDimensionMismatch
      else Inr (foldl (\<lambda>result i. foldl (\<lambda>result j. foldl (\<lambda>result k.
                   set_cell result i j (dadd (cell result i j) (dmul (data m ! i ! k) (cell other k j))))
                   result [0..<cols m]) result [0..<cols other])
                 (Matrix_zero (rows m) (cols other)) [0..<rows m]))"

text \<open>
  Cholesky decomposition. \<open>cholesky_sum\<close> is the innermost loop, \<open>cholesky_cell\<close> the body
  of the loop over \<open>j\<close>, which throws when a diagonal term is not positive.
\<close>

definition cholesky_sum :: "Matrix \<Rightarrow> nat \<Rightarrow> nat \<Rightarrow> dbl" where
  "cholesky_sum L i j = foldl (\<lambda>sum k. dadd sum (dmul (cell L i k) (cell L j k))) (Fin 0) [0..<j]"

definition cholesky_cell :: "Matrix \<Rightarrow> Matrix \<Rightarrow> nat \<Rightarrow> nat \<Rightarrow> error + Matrix" where
  "cholesky_cell A L i j =
     (let sum = cholesky_sum L i j in
      if i = j then
        (let v = dsub (data A ! i ! i) sum in
         if dle v (Fin 0) then Inl NotPositiveDefinite
         else Inr (set_cell L i j (dsqrt v)))
      else Inr (set_cell L i j (ddiv (dsub (data A ! i ! j) sum) (cell L j j))))"

definition cholesky_row :: "Matrix \<Rightarrow> Matrix \<Rightarrow> nat \<Rightarrow> error + Matrix" where
  "cholesky_row A L i = try_fold (\<lambda>L j. cholesky_cell A L i j) [0..<Suc i] L"

definition cholesky_decompose :: "Matrix \<Rightarrow> error + Matrix" where
  "cholesky_decompose A =
     (if rows A \<noteq> cols A then Inl CholeskyNotSquare
      else try_fold (cholesky_row A) [0..<rows A] (Matrix_zero (rows A) (rows A)))"

text \<open>The mean of each column and the unbiased sample covariance matrix.\<close>

definition mean_per_column :: "Matrix \<Rightarrow> dbl list" where
  "mean_per_column m =
     (if rows m = 0 \<or> cols m = 0 then []
      else map (\<lambda>j. ddiv (foldl (\<lambda>mean i. dadd mean (data m ! i ! j)) (Fin 0) [0..<rows m])
                         (Fin (real (rows m))))
             [0..<cols m])"

definition covariance_matrix :: "Matrix \<Rightarrow> error + Matrix" where
  "covariance_matrix m =
     (if rows m < 2 then Inl CovarianceTooFewRows
      else
        (let means = mean_per_column m in
         Inr (foldl (\<lambda>cov i. foldl (\<lambda>cov j.
                  set_cell cov i j
                    (ddiv (foldl (\<lambda>sum k.
                               dadd sum (dmul (dsub (data m ! k ! i) (means ! i))
                                              (dsub (data m ! k ! j) (means ! j))))
                             (Fin 0) [0..<rows m])
                          (Fin (real (rows m - 1)))))
                  cov [0..<cols m])
                (Matrix_zero (cols m) (cols m)) [0..<cols m])))"

section \<open>Portfolio\<close>

record Portfolio =
  returns :: Matrix
  cov_matrix :: Matrix
  means :: "dbl list"
  num_assets :: nat

text \<open>
  What the constructor establishes: one mean per asset and a covariance matrix with one
  row and one column per asset, so that the loops below read inside both.
\<close>

definition portfolio_ok :: "Portfolio \<Rightarrow> bool" where
  "portfolio_ok p =
     (length (means p) = num_assets p \<and> matrix_ok (cov_matrix p) \<and>
      rows (cov_matrix p) = num_assets p \<and> cols (cov_matrix p) = num_assets p)"

text \<open>The constructor, \<^verbatim>\<open>Portfolio(R)\<close>.\<close>

definition Portfolio_of :: "Matrix \<Rightarrow> error + Portfolio" where
  "Portfolio_of R =
     (if rows R < 2 then Inl PortfolioTooFewRows
      else if cols R = 0 then Inl PortfolioNoAssets
      else
        (case covariance_matrix R of
           Inl e \<Rightarrow> Inl e
         | Inr cov \<Rightarrow>
             Inr \<lparr>returns = R, cov_matrix = cov, means = mean_per_column R,
                  num_assets = cols R\<rparr>))"

definition get_num_assets :: "Portfolio \<Rightarrow> nat" where
  "get_num_assets p = num_assets p"

definition portfolio_return :: "Portfolio \<Rightarrow> dbl list \<Rightarrow> error + dbl" where
  "portfolio_return p weights =
     (if length weights \<noteq> num_assets p then Inl ReturnSizeMismatch
      else Inr (foldl (\<lambda>ret i. dadd ret (dmul (weights ! i) (means p ! i)))
                  (Fin 0) [0..<num_assets p]))"

definition portfolio_variance :: "Portfolio \<Rightarrow> dbl list \<Rightarrow> error + dbl" where
  "portfolio_variance p weights =
     (if length weights \<noteq> num_assets p then Inl VarianceSizeMismatch
      else Inr (foldl (\<lambda>var i.
                  foldl (\<lambda>var j.
                    dadd var (dmul (dmul (weights ! i) (weights ! j)) (cell (cov_matrix p) i j)))
                    var [0..<num_assets p])
                  (Fin 0) [0..<num_assets p]))"

definition portfolio_risk :: "Portfolio \<Rightarrow> dbl list \<Rightarrow> error + dbl" where
  "portfolio_risk p weights =
     (case portfolio_variance p weights of
        Inl e \<Rightarrow> Inl e
      | Inr var \<Rightarrow> Inr (dsqrt (std_max (Fin 0) var)))"

definition sharpe_ratio :: "Portfolio \<Rightarrow> dbl list \<Rightarrow> dbl \<Rightarrow> error + dbl" where
  "sharpe_ratio p weights risk_free =
     (case portfolio_return p weights of
        Inl e \<Rightarrow> Inl e
      | Inr port_ret \<Rightarrow>
          (case portfolio_risk p weights of
             Inl e \<Rightarrow> Inl e
           | Inr port_risk \<Rightarrow>
               (let excess_ret = dsub port_ret risk_free in
                if dlt port_risk (Fin lit_1e_12) then
                  (if dgt excess_ret (Fin lit_1e_12) then Inr infinity else Inr (Fin 0))
                else Inr (ddiv excess_ret port_risk))))"

section \<open>Constraints\<close>

definition validate_weights_sum_to_one :: "dbl list \<Rightarrow> error + unit" where
  "validate_weights_sum_to_one weights =
     (let sum = accumulate weights in
      if dgt (fabs (dsub sum (Fin 1))) EPSILON then Inl WeightsSumNotOne else Inr ())"

fun validate_bounds :: "dbl list \<Rightarrow> dbl \<Rightarrow> dbl \<Rightarrow> error + unit" where
  "validate_bounds [] lower upper = Inr ()"
| "validate_bounds (w # ws) lower upper =
     (if dlt w (dsub lower EPSILON) \<or> dgt w (dadd upper EPSILON) then Inl BoundsViolated
      else validate_bounds ws lower upper)"

text \<open>The expected return as the validators and the penalty compute it.\<close>

definition expected_return :: "dbl list \<Rightarrow> dbl list \<Rightarrow> dbl" where
  "expected_return weights mean_returns =
     foldl (\<lambda>er i. dadd er (dmul (weights ! i) (mean_returns ! i))) (Fin 0) [0..<length weights]"

definition validate_target_return :: "dbl list \<Rightarrow> dbl list \<Rightarrow> dbl \<Rightarrow> error + unit" where
  "validate_target_return weights mean_returns target_return =
     (if length weights \<noteq> length mean_returns then Inl TargetSizeMismatch
      else if dlt (dadd (expected_return weights mean_returns) EPSILON) target_return
        then Inl TargetBelow
      else Inr ())"

definition validate_weights :: "dbl list \<Rightarrow> dbl list \<Rightarrow> dbl \<Rightarrow> dbl \<Rightarrow> dbl \<Rightarrow> error + unit" where
  "validate_weights weights mean_returns lower upper target_return =
     (case validate_weights_sum_to_one weights of
        Inl e \<Rightarrow> Inl e
      | Inr _ \<Rightarrow>
          (case validate_bounds weights lower upper of
             Inl e \<Rightarrow> Inl e
           | Inr _ \<Rightarrow>
               if dgt target_return (dadd lowest EPSILON)
               then validate_target_return weights mean_returns target_return
               else Inr ()))"

text \<open>\<^verbatim>\<open>try { validate_weights(...); return true; } catch (...) { return false; }\<close>\<close>

definition is_feasible :: "dbl list \<Rightarrow> dbl list \<Rightarrow> dbl \<Rightarrow> dbl \<Rightarrow> dbl \<Rightarrow> bool" where
  "is_feasible weights mean_returns lower upper target_return =
     (case validate_weights weights mean_returns lower upper target_return of
        Inr _ \<Rightarrow> True
      | Inl _ \<Rightarrow> False)"

text \<open>
  \<open>constraint_penalty\<close> adds three terms to \<open>penalty\<close> in turn; the last block, the
  target-return shortfall, is \<open>penalty_target_term\<close> (it adds nothing where it is \<open>0\<close>).
\<close>

definition penalty_bounds_step :: "dbl \<Rightarrow> dbl \<Rightarrow> dbl \<Rightarrow> dbl \<Rightarrow> dbl" where
  "penalty_bounds_step lower upper penalty w =
     (let penalty = (if dlt w (dsub lower EPSILON) then dadd penalty (dsub lower w) else penalty)
      in if dgt w (dadd upper EPSILON) then dadd penalty (dsub w upper) else penalty)"

definition penalty_target_term :: "dbl list \<Rightarrow> dbl list \<Rightarrow> dbl \<Rightarrow> dbl" where
  "penalty_target_term weights mean_returns target_return =
     (if dgt target_return (dadd lowest EPSILON) then
        (if length weights \<noteq> length mean_returns then Fin 1000
         else if dlt (dadd (expected_return weights mean_returns) EPSILON) target_return
           then dsub target_return (expected_return weights mean_returns)
         else Fin 0)
      else Fin 0)"

definition constraint_penalty :: "dbl list \<Rightarrow> dbl list \<Rightarrow> dbl \<Rightarrow> dbl \<Rightarrow> dbl \<Rightarrow> dbl" where
  "constraint_penalty weights mean_returns lower upper target_return =
     (let penalty = Fin 0;
          sum = accumulate weights;
          penalty = dadd penalty (fabs (dsub sum (Fin 1)));
          penalty = foldl (penalty_bounds_step lower upper) penalty weights
      in dadd penalty (penalty_target_term weights mean_returns target_return))"

section \<open>Utilities\<close>

text \<open>
  The pseudo-random generator is a tape of raw draws and a read position. Each
  distribution of \<^verbatim>\<open><random>\<close> reads one raw draw and maps it into its range, so a
  statement about every tape is a statement about every sequence of random choices.
\<close>

record mt19937 =
  tape :: "nat \<Rightarrow> real"
  pos :: nat

definition advance :: "mt19937 \<Rightarrow> mt19937" where
  "advance g = g\<lparr>pos := Suc (pos g)\<rparr>"

definition unit_draw :: "mt19937 \<Rightarrow> real" where
  "unit_draw g = (let x = tape g (pos g) in if 0 \<le> x \<and> x < 1 then x else 0)"

text \<open>\<^verbatim>\<open>uniform_real_distribution<>(0.0, 1.0)\<close>: a value in \<open>[0, 1)\<close>.\<close>

definition uniform_real :: "mt19937 \<Rightarrow> dbl \<times> mt19937" where
  "uniform_real g = (Fin (unit_draw g), advance g)"

text \<open>\<^verbatim>\<open>uniform_int_distribution<>(0, b)\<close>: an index in \<open>{0..b}\<close>.\<close>

definition uniform_int :: "nat \<Rightarrow> mt19937 \<Rightarrow> nat \<times> mt19937" where
  "uniform_int b g = (nat \<lfloor>unit_draw g * (real b + 1)\<rfloor>, advance g)"

text \<open>\<^verbatim>\<open>bernoulli_distribution(p)\<close>: true with probability \<open>p\<close>.\<close>

definition bernoulli :: "dbl \<Rightarrow> mt19937 \<Rightarrow> bool \<times> mt19937" where
  "bernoulli p g = (dlt (Fin (unit_draw g)) p, advance g)"

text \<open>\<^verbatim>\<open>normal_distribution<>(0.0, sigma)\<close>: any finite number.\<close>

definition normal :: "real \<Rightarrow> mt19937 \<Rightarrow> dbl \<times> mt19937" where
  "normal sigma g = (Fin (sigma * tape g (pos g)), advance g)"

fun draw_uniform :: "nat \<Rightarrow> mt19937 \<Rightarrow> dbl list \<times> mt19937" where
  "draw_uniform 0 g = ([], g)"
| "draw_uniform (Suc n) g =
     (let (w, g) = uniform_real g; (ws, g) = draw_uniform n g in (w # ws, g))"

definition random_weights :: "nat \<Rightarrow> mt19937 \<Rightarrow> error + (dbl list \<times> mt19937)" where
  "random_weights n gen =
     (if n = 0 then Inl RandomWeightsZeroSize
      else
        (let (weights, gen) = draw_uniform n gen;
             sum = accumulate weights
         in if dlt sum (Fin lit_1e_12)
            then Inr (replicate n (ddiv (Fin 1) (Fin (real n))), gen)
            else Inr (map (\<lambda>w. ddiv w sum) weights, gen)))"

definition clip_weights :: "dbl list \<Rightarrow> dbl \<Rightarrow> dbl \<Rightarrow> dbl list" where
  "clip_weights weights min_val max_val = map (\<lambda>w. std_clamp w min_val max_val) weights"

definition normalize_vec :: "dbl list \<Rightarrow> error + dbl list" where
  "normalize_vec weights =
     (let sum = accumulate weights in
      if dlt sum (Fin lit_1e_12) then Inl NormalizeZeroSum
      else Inr (map (\<lambda>w. ddiv w sum) weights))"

section \<open>GeneticOptimiser\<close>

record GeneticOptimiser =
  portfolio :: Portfolio
  population_size :: nat
  generations :: nat
  mutation_rate :: dbl
  crossover_rate :: dbl
  lower_bound :: dbl
  upper_bound :: dbl
  target_return :: dbl
  risk_free_rate :: dbl
  sum_penalty_multiplier :: dbl
  bounds_penalty_multiplier :: dbl
  target_return_penalty_multiplier :: dbl
  generator :: mt19937

text \<open>The body of the loop over the weights in \<open>calculate_fitness\<close>.\<close>

definition fitness_bounds_step :: "dbl \<Rightarrow> dbl \<Rightarrow> dbl \<Rightarrow> dbl \<Rightarrow> dbl" where
  "fitness_bounds_step lower upper bounds_penalty w =
     (let bounds_penalty =
            (if dlt w lower then dadd bounds_penalty (dsub lower w) else bounds_penalty)
      in if dgt w upper then dadd bounds_penalty (dsub w upper) else bounds_penalty)"

text \<open>The block of \<open>calculate_fitness\<close> that sets \<open>target_ret_penalty\<close>.\<close>

definition fitness_target_ret_penalty :: "GeneticOptimiser \<Rightarrow> dbl list \<Rightarrow> error + dbl" where
  "fitness_target_ret_penalty opt weights =
     (if dgt (target_return opt) (dadd lowest EPSILON) then
        (if length weights \<noteq> get_num_assets (portfolio opt) then Inr (Fin 100)
         else
           (case portfolio_return (portfolio opt) weights of
              Inl e \<Rightarrow> Inl e
            | Inr current_return \<Rightarrow>
                if dlt (dadd current_return EPSILON) (target_return opt)
                then Inr (dsub (target_return opt) current_return)
                else Inr (Fin 0)))
      else Inr (Fin 0))"

definition calculate_fitness :: "GeneticOptimiser \<Rightarrow> dbl list \<Rightarrow> error + dbl" where
  "calculate_fitness opt weights =
     (let sum_penalty = fabs (dsub (accumulate weights) (Fin 1)) in
      case sharpe_ratio (portfolio opt) weights (risk_free_rate opt) of
        Inl e \<Rightarrow> Inl e
      | Inr sharpe \<Rightarrow>
          (let bounds_penalty =
                 foldl (fitness_bounds_step (lower_bound opt) (upper_bound opt)) (Fin 0) weights
           in case fitness_target_ret_penalty opt weights of
                Inl e \<Rightarrow> Inl e
              | Inr target_ret_penalty \<Rightarrow>
                  (let total_penalty =
                         dadd (dadd (dmul sum_penalty (sum_penalty_multiplier opt))
                                    (dmul bounds_penalty (bounds_penalty_multiplier opt)))
                              (dmul target_ret_penalty (target_return_penalty_multiplier opt))
                   in if deq sharpe infinity then Inr (dneg infinity)
                      else if isnan sharpe then Inr numeric_max
                      else Inr (dadd (dneg sharpe) total_penalty))))"

text \<open>
  Tournament selection. With an empty population the bounds of the index distribution
  are \<open>0\<close> and \<open>-1\<close> and the read is out of range; that is reported as an error.
\<close>

definition tournament_round :: "nat \<Rightarrow> dbl list \<Rightarrow> nat \<times> mt19937 \<Rightarrow> nat \<Rightarrow> nat \<times> mt19937" where
  "tournament_round b fitnesses st i =
     (let (best_idx, gen) = st;
          (current_idx, gen) = uniform_int b gen
      in if dlt (fitnesses ! current_idx) (fitnesses ! best_idx)
         then (current_idx, gen) else (best_idx, gen))"

definition select_parent ::
  "dbl list list \<Rightarrow> dbl list \<Rightarrow> mt19937 \<Rightarrow> error + (dbl list \<times> mt19937)" where
  "select_parent population fitnesses gen =
     (if population = [] then Inl IndexOutOfRange
      else
        (let k = 3;
             b = length population - 1;
             (best_idx, gen) = foldl (tournament_round b fitnesses) (uniform_int b gen) [1..<k]
         in Inr (population ! best_idx, gen)))"

definition crossover_gene ::
  "dbl \<Rightarrow> dbl list \<times> dbl list \<times> mt19937 \<Rightarrow> nat \<Rightarrow> dbl list \<times> dbl list \<times> mt19937" where
  "crossover_gene rate st i =
     (let (child1, child2, gen) = st;
          (coin, gen) = bernoulli rate gen
      in if coin then (child1[i := child2 ! i], child2[i := child1 ! i], gen)
         else (child1, child2, gen))"

definition crossover ::
  "GeneticOptimiser \<Rightarrow> dbl list \<Rightarrow> dbl list \<Rightarrow> mt19937 \<Rightarrow>
     error + (dbl list \<times> dbl list \<times> mt19937)" where
  "crossover opt parent1 parent2 gen =
     (let (child1, child2, gen) =
            foldl (crossover_gene (crossover_rate opt)) (parent1, parent2, gen)
              [0..<length parent1]
      in case normalize_vec child1 of
           Inl e \<Rightarrow> Inl e
         | Inr child1 \<Rightarrow>
             (case normalize_vec child2 of
                Inl e \<Rightarrow> Inl e
              | Inr child2 \<Rightarrow> Inr (child1, child2, gen)))"

fun mutate_genes :: "dbl \<Rightarrow> dbl list \<Rightarrow> bool \<Rightarrow> mt19937 \<Rightarrow> dbl list \<times> bool \<times> mt19937" where
  "mutate_genes rate [] mutated gen = ([], mutated, gen)"
| "mutate_genes rate (w # ws) mutated gen =
     (let (u, gen) = uniform_real gen in
      if dlt u rate then
        (let (noise, gen) = normal lit_0_05 gen;
             (ws, mutated, gen) = mutate_genes rate ws True gen
         in (dadd w noise # ws, mutated, gen))
      else
        (let (ws, mutated, gen) = mutate_genes rate ws mutated gen
         in (w # ws, mutated, gen)))"

definition mutate ::
  "GeneticOptimiser \<Rightarrow> dbl list \<Rightarrow> mt19937 \<Rightarrow> error + (dbl list \<times> mt19937)" where
  "mutate opt individual gen =
     (let (individual, mutated, gen) = mutate_genes (mutation_rate opt) individual False gen
      in if mutated then
           (case normalize_vec (clip_weights individual (lower_bound opt) (upper_bound opt)) of
              Inl e \<Rightarrow> Inl e
            | Inr individual \<Rightarrow> Inr (individual, gen))
         else Inr (individual, gen))"

text \<open>
  \<^verbatim>\<open>std::min_element\<close> returns the first smallest element, and the end of the range
  (index \<open>0\<close>) when the range is empty.
\<close>

definition min_element :: "dbl list \<Rightarrow> nat" where
  "min_element fs = foldl (\<lambda>smallest i. if dlt (fs ! i) (fs ! smallest) then i else smallest)
                      0 [1..<length fs]"

text \<open>
  \<^verbatim>\<open>std::sort\<close> on pairs of a fitness and a weight vector, with the pairs' own
  \<^verbatim>\<open>operator<\<close>. The library leaves the order of equivalent pairs open; here they keep
  their order.
\<close>

fun vec_less :: "dbl list \<Rightarrow> dbl list \<Rightarrow> bool" where
  "vec_less [] [] = False"
| "vec_less [] (y # ys) = True"
| "vec_less (x # xs) [] = False"
| "vec_less (x # xs) (y # ys) =
     (if dlt x y then True else if dlt y x then False else vec_less xs ys)"

definition pair_less :: "dbl \<times> dbl list \<Rightarrow> dbl \<times> dbl list \<Rightarrow> bool" where
  "pair_less a b = (dlt (fst a) (fst b) \<or> (\<not> dlt (fst b) (fst a) \<and> vec_less (snd a) (snd b)))"

fun insert_pair :: "dbl \<times> dbl list \<Rightarrow> (dbl \<times> dbl list) list \<Rightarrow> (dbl \<times> dbl list) list" where
  "insert_pair a [] = [a]"
| "insert_pair a (b # bs) = (if pair_less a b then a # b # bs else b # insert_pair a bs)"

definition std_sort :: "(dbl \<times> dbl list) list \<Rightarrow> (dbl \<times> dbl list) list" where
  "std_sort ps = foldr insert_pair ps []"

text \<open>The state of one run of \<open>optimise\<close>: its local variables and the generator.\<close>

record ga_state =
  st_population :: "dbl list list"
  st_fitnesses :: "dbl list"
  st_best_weights :: "dbl list"
  st_best_fitness :: dbl
  st_generator :: mt19937

fun init_population ::
  "GeneticOptimiser \<Rightarrow> nat \<Rightarrow> mt19937 \<Rightarrow> error + (dbl list list \<times> mt19937)" where
  "init_population opt 0 gen = Inr ([], gen)"
| "init_population opt (Suc k) gen =
     (case random_weights (get_num_assets (portfolio opt)) gen of
        Inl e \<Rightarrow> Inl e
      | Inr (ind, gen) \<Rightarrow>
          (case normalize_vec (clip_weights ind (lower_bound opt) (upper_bound opt)) of
             Inl e \<Rightarrow> Inl e
           | Inr ind \<Rightarrow>
               (case init_population opt k gen of
                  Inl e \<Rightarrow> Inl e
                | Inr (rest, gen) \<Rightarrow> Inr (ind # rest, gen))))"

definition evaluate :: "GeneticOptimiser \<Rightarrow> dbl list list \<Rightarrow> dbl list \<Rightarrow> error + dbl list" where
  "evaluate opt population fitnesses =
     try_fold (\<lambda>fitnesses i.
         case calculate_fitness opt (population ! i) of
           Inl e \<Rightarrow> Inl e
         | Inr f \<Rightarrow> Inr (fitnesses[i := f]))
       [0..<population_size opt] fitnesses"

text \<open>One pass of the \<^verbatim>\<open>while (new_pop.size() < population_size)\<close> loop.\<close>

definition breed ::
  "GeneticOptimiser \<Rightarrow> dbl list list \<Rightarrow> dbl list \<Rightarrow> dbl list list \<Rightarrow> mt19937 \<Rightarrow>
     error + (dbl list list \<times> mt19937)" where
  "breed opt population fitnesses new_pop gen =
     (case select_parent population fitnesses gen of
        Inl e \<Rightarrow> Inl e
      | Inr (p1, gen) \<Rightarrow>
     (case select_parent population fitnesses gen of
        Inl e \<Rightarrow> Inl e
      | Inr (p2, gen) \<Rightarrow>
     (case crossover opt p1 p2 gen of
        Inl e \<Rightarrow> Inl e
      | Inr (c1, c2, gen) \<Rightarrow>
     (case mutate opt c1 gen of
        Inl e \<Rightarrow> Inl e
      | Inr (c1, gen) \<Rightarrow>
     (case mutate opt c2 gen of
        Inl e \<Rightarrow> Inl e
      | Inr (c2, gen) \<Rightarrow>
          (let new_pop = new_pop @ [c1] in
           if length new_pop < population_size opt then Inr (new_pop @ [c2], gen)
           else Inr (new_pop, gen)))))))"

text \<open>
  The \<^verbatim>\<open>while\<close> loop itself. Every pass adds at least one child, so the number of
  individuals still missing falls and the loop ends.
\<close>

function reproduce ::
  "GeneticOptimiser \<Rightarrow> dbl list list \<Rightarrow> dbl list \<Rightarrow> dbl list list \<Rightarrow> mt19937 \<Rightarrow>
     error + (dbl list list \<times> mt19937)" where
  "reproduce opt population fitnesses new_pop gen =
     (if length new_pop < population_size opt then
        (case breed opt population fitnesses new_pop gen of
           Inl e \<Rightarrow> Inl e
         | Inr (new_pop, gen) \<Rightarrow> reproduce opt population fitnesses new_pop gen)
      else Inr (new_pop, gen))"
  by pat_completeness auto
termination
  by (relation "measure (\<lambda>(opt, population, fitnesses, new_pop, gen).
                  population_size opt - length new_pop)")
     (auto simp: breed_def Let_def split: sum.splits prod.splits if_splits)

declare reproduce.simps [simp del]

text \<open>The body of the loop over the generations (its progress output left out).\<close>

definition generation :: "GeneticOptimiser \<Rightarrow> ga_state \<Rightarrow> error + ga_state" where
  "generation opt st =
     (case evaluate opt (st_population st) (st_fitnesses st) of
        Inl e \<Rightarrow> Inl e
      | Inr fitnesses \<Rightarrow>
          (let best_idx = min_element fitnesses in
           if fitnesses = [] then Inl IndexOutOfRange
           else
             (let improved = dlt (fitnesses ! best_idx) (st_best_fitness st);
                  best_fitness = (if improved then fitnesses ! best_idx else st_best_fitness st);
                  best_weights = (if improved then st_population st ! best_idx else st_best_weights st);
                  sorted = std_sort (map (\<lambda>i. (fitnesses ! i, st_population st ! i))
                                       [0..<population_size opt]);
                  elite_count = population_size opt div 20;
                  new_pop = map (\<lambda>i. snd (sorted ! i)) [0..<elite_count]
              in case reproduce opt (st_population st) fitnesses new_pop (st_generator st) of
                   Inl e \<Rightarrow> Inl e
                 | Inr (new_pop, gen) \<Rightarrow>
                     Inr \<lparr>st_population = new_pop, st_fitnesses = fitnesses,
                          st_best_weights = best_weights, st_best_fitness = best_fitness,
                          st_generator = gen\<rparr>)))"

fun generations_loop :: "GeneticOptimiser \<Rightarrow> nat \<Rightarrow> ga_state \<Rightarrow> error + ga_state" where
  "generations_loop opt 0 st = Inr st"
| "generations_loop opt (Suc k) st =
     (case generation opt st of
        Inl e \<Rightarrow> Inl e
      | Inr st \<Rightarrow> generations_loop opt k st)"

text \<open>
  \<open>optimise_run\<close> is \<open>optimise\<close> up to its \<^verbatim>\<open>return\<close>, keeping the final state so that
  the tracked best fitness can be read; \<open>optimise\<close> returns the best weights.
\<close>

definition initial_state :: "GeneticOptimiser \<Rightarrow> dbl list list \<Rightarrow> mt19937 \<Rightarrow> ga_state" where
  "initial_state opt pop gen =
     \<lparr>st_population = pop, st_fitnesses = replicate (population_size opt) (Fin 0),
      st_best_weights = [], st_best_fitness = numeric_max, st_generator = gen\<rparr>"

definition final_recompute :: "GeneticOptimiser \<Rightarrow> ga_state \<Rightarrow> error + ga_state" where
  "final_recompute opt st =
     (case calculate_fitness opt (st_best_weights st) of
        Inl e \<Rightarrow> Inl e
      | Inr final_fitness \<Rightarrow>
          Inr (if dlt final_fitness (st_best_fitness st)
               then st\<lparr>st_best_fitness := final_fitness\<rparr> else st))"

definition optimise_run :: "GeneticOptimiser \<Rightarrow> error + ga_state" where
  "optimise_run opt =
     (case init_population opt (population_size opt) (generator opt) of
        Inl e \<Rightarrow> Inl e
      | Inr (pop, gen) \<Rightarrow>
          (case generations_loop opt (generations opt) (initial_state opt pop gen) of
             Inl e \<Rightarrow> Inl e
           | Inr st \<Rightarrow> final_recompute opt st))"

definition optimise :: "GeneticOptimiser \<Rightarrow> error + dbl list" where
  "optimise opt =
     (case optimise_run opt of
        Inl e \<Rightarrow> Inl e
      | Inr st \<Rightarrow> Inr (st_best_weights st))"

section \<open>The rules as the specification words them\<close>

text \<open>
  The penalty terms of the specification, section 4.3, and the three constraints of the
  strict validator, written from the specification's sentences. The sum over the weights
  is a running sum, to which each weight adds its two terms in turn. The unconstrained
  sentinel is \<open>lowest\<close>.
\<close>

definition spec_sum_penalty :: "dbl list \<Rightarrow> dbl" where
  "spec_sum_penalty w = fabs (dsub (accumulate w) (Fin 1))"

definition spec_bounds_penalty :: "dbl \<Rightarrow> dbl \<Rightarrow> dbl list \<Rightarrow> dbl" where
  "spec_bounds_penalty lower upper w =
     foldl (\<lambda>sum wi. dadd (dadd sum (std_max (Fin 0) (dsub lower wi)))
                        (std_max (Fin 0) (dsub wi upper)))
       (Fin 0) w"

definition spec_target_penalty :: "dbl \<Rightarrow> dbl \<Rightarrow> dbl" where
  "spec_target_penalty target expected =
     (if target = lowest \<or> dge expected (dsub target EPSILON) then Fin 0
      else dsub target expected)"

text \<open>
  The fitness of the specification for a Sharpe ratio and an expected return:
  \<open>-sharpe\<close> plus the total penalty.
\<close>

definition spec_fitness :: "GeneticOptimiser \<Rightarrow> dbl list \<Rightarrow> dbl \<Rightarrow> dbl \<Rightarrow> dbl" where
  "spec_fitness opt w sharpe expected =
     dadd (dneg sharpe)
       (dadd (dadd (dmul (spec_sum_penalty w) (sum_penalty_multiplier opt))
                   (dmul (spec_bounds_penalty (lower_bound opt) (upper_bound opt) w)
                         (bounds_penalty_multiplier opt)))
             (dmul (spec_target_penalty (target_return opt) expected)
                   (target_return_penalty_multiplier opt)))"

definition spec_sum_violated :: "dbl list \<Rightarrow> bool" where
  "spec_sum_violated w = dgt (fabs (dsub (accumulate w) (Fin 1))) EPSILON"

definition spec_bounds_violated :: "dbl list \<Rightarrow> dbl \<Rightarrow> dbl \<Rightarrow> bool" where
  "spec_bounds_violated w lower upper =
     list_ex (\<lambda>wi. dlt wi (dsub lower EPSILON) \<or> dgt wi (dadd upper EPSILON)) w"

definition spec_target_violated :: "dbl list \<Rightarrow> dbl list \<Rightarrow> dbl \<Rightarrow> bool" where
  "spec_target_violated w m target =
     (target \<noteq> lowest \<and> dlt (expected_return w m) (dsub target EPSILON))"

text \<open>
  For the Cholesky decomposition: a symmetric matrix, a lower-triangular one, and the
  diagonal term of row \<open>i\<close>, that is \<open>data[i][i]\<close> less the accumulated sum at the moment
  the factorisation reaches it (an error if it fails before).
\<close>

definition symmetric :: "Matrix \<Rightarrow> bool" where
  "symmetric m =
     list_all (\<lambda>i. list_all (\<lambda>j. cell m i j = cell m j i) [0..<cols m]) [0..<rows m]"

definition lower_triangular :: "Matrix \<Rightarrow> bool" where
  "lower_triangular m =
     list_all (\<lambda>i. list_all (\<lambda>j. i < j \<longrightarrow> cell m i j = Fin 0) [0..<cols m]) [0..<rows m]"

definition diagonal_term :: "Matrix \<Rightarrow> nat \<Rightarrow> error + dbl" where
  "diagonal_term A i =
     (case try_fold (cholesky_row A) [0..<i] (Matrix_zero (rows A) (rows A)) of
        Inl e \<Rightarrow> Inl e
      | Inr L \<Rightarrow>
          (case try_fold (\<lambda>L j. cholesky_cell A L i j) [0..<i] L of
             Inl e \<Rightarrow> Inl e
           | Inr L \<Rightarrow> Inr (dsub (data A ! i ! i) (cholesky_sum L i i))))"

text \<open>The tracked best fitness of \<open>st'\<close> is that of \<open>st\<close> or strictly lower.\<close>

definition not_worse :: "ga_state \<Rightarrow> ga_state \<Rightarrow> bool" where
  "not_worse st st' =
     (st_best_fitness st' = st_best_fitness st \<or>
      dlt (st_best_fitness st') (st_best_fitness st))"

section \<open>The rules as the program applies them\<close>

text \<open>
  The target-return term with the two tests in the form the program makes them: the
  target is constrained when it is above \<open>lowest + EPSILON\<close> (which the sentinel, minus
  infinity and NaN are not), and it is missed when the expected return plus \<open>EPSILON\<close> is
  below it (which a NaN expected return is not).
\<close>

definition guarded_target_penalty :: "dbl \<Rightarrow> dbl \<Rightarrow> dbl" where
  "guarded_target_penalty target expected =
     (if dgt target (dadd lowest EPSILON) \<and> dlt (dadd expected EPSILON) target
      then dsub target expected else Fin 0)"

text \<open>
  The equations of the factorisation. \<open>cholesky_entry A L i j\<close> is what they give the
  entry \<open>(i, j)\<close> of the factor from the entries of \<open>L\<close> to its left and above it and
  from \<open>A\<close>: on the diagonal the root of \<open>A(i, i)\<close> less the sum of the squares to the
  left, below it \<open>A(i, j)\<close> less the sum of the products of rows \<open>i\<close> and \<open>j\<close>, over
  \<open>L(j, j)\<close>. \<open>factor_equations A L\<close>: every entry of \<open>L\<close> on and below the diagonal is
  that value, and no diagonal term is at most \<open>0\<close>.
\<close>

definition cholesky_entry :: "Matrix \<Rightarrow> Matrix \<Rightarrow> nat \<Rightarrow> nat \<Rightarrow> dbl" where
  "cholesky_entry A L i j =
     (if i = j then dsqrt (dsub (cell A i i) (cholesky_sum L i i))
      else ddiv (dsub (cell A i j) (cholesky_sum L i j)) (cell L j j))"

definition factor_equations :: "Matrix \<Rightarrow> Matrix \<Rightarrow> bool" where
  "factor_equations A L =
     list_all (\<lambda>i. \<not> dle (dsub (cell A i i) (cholesky_sum L i i)) (Fin 0) \<and>
                   list_all (\<lambda>j. cell L i j = cholesky_entry A L i j) [0..<Suc i])
       [0..<rows A]"

section \<open>Loop invariants\<close>

text \<open>A matrix of \<open>r\<close> rows of \<open>c\<close> entries.\<close>

definition shaped :: "nat \<Rightarrow> nat \<Rightarrow> Matrix \<Rightarrow> bool" where
  "shaped r c m = (rows m = r \<and> cols m = c \<and> length (data m) = r \<and>
                   (\<forall>i<r. length (data m ! i) = c))"

text \<open>
  The cells of \<open>L\<close> that the factorisation has written when its loops stand at row \<open>i\<close>
  and column \<open>j\<close>, and what holds of \<open>L\<close> then: the cells not yet written are \<open>0\<close>
  (\<open>chol_shape\<close>), and the written ones satisfy the equations of the factorisation
  (\<open>chol_eqs\<close>).
\<close>

definition filled :: "nat \<Rightarrow> nat \<Rightarrow> nat \<Rightarrow> nat \<Rightarrow> bool" where
  "filled i j r c = (r < i \<and> c \<le> r \<or> r = i \<and> c < j)"

definition chol_shape :: "nat \<Rightarrow> nat \<Rightarrow> nat \<Rightarrow> Matrix \<Rightarrow> bool" where
  "chol_shape n i j L =
     (shaped n n L \<and> (\<forall>r<n. \<forall>c<n. \<not> filled i j r c \<longrightarrow> cell L r c = Fin 0))"

definition chol_eqs :: "Matrix \<Rightarrow> nat \<Rightarrow> nat \<Rightarrow> Matrix \<Rightarrow> bool" where
  "chol_eqs A i j L =
     (shaped (rows A) (rows A) L \<and>
      (\<forall>r<rows A. \<forall>c<rows A. filled i j r c \<longrightarrow> cell L r c = cholesky_entry A L r c) \<and>
      (\<forall>r<rows A. filled i j r r \<longrightarrow>
         \<not> dle (dsub (cell A r r) (cholesky_sum L r r)) (Fin 0)))"

section \<open>Concrete inputs\<close>

text \<open>A portfolio of one asset with the given mean return and variance.\<close>

definition one_asset :: "dbl \<Rightarrow> dbl \<Rightarrow> Portfolio" where
  "one_asset mean var =
     \<lparr>returns = Matrix_zero 2 1,
      cov_matrix = \<lparr>rows = 1, cols = 1, data = [[var]]\<rparr>,
      means = [mean], num_assets = 1\<rparr>"

text \<open>The default arguments of the constructor in Optimiser.hpp, and a fixed tape.\<close>

definition default_optimiser :: "Portfolio \<Rightarrow> GeneticOptimiser" where
  "default_optimiser port =
     \<lparr>portfolio = port, population_size = 100, generations = 1000,
      mutation_rate = Fin lit_0_05, crossover_rate = Fin lit_0_7,
      lower_bound = Fin 0, upper_bound = Fin 1, target_return = lowest,
      risk_free_rate = Fin 0, sum_penalty_multiplier = Fin 100,
      bounds_penalty_multiplier = Fin 100, target_return_penalty_multiplier = Fin 1000,
      generator = \<lparr>tape = (\<lambda>n. 1 / 2), pos = 0\<rparr>\<rparr>"

text \<open>
  The same with a target return of \<open>3\<close>, with a target return of NaN, and with a target
  return of \<open>0\<close> over an asset whose mean return and variance are NaN (as they are for
  returns that hold a NaN).
\<close>

definition target_optimiser :: GeneticOptimiser where
  "target_optimiser = (default_optimiser (one_asset (Fin 1) (Fin 1)))\<lparr>target_return := Fin 3\<rparr>"

definition nan_target_optimiser :: GeneticOptimiser where
  "nan_target_optimiser = (default_optimiser (one_asset (Fin 1) (Fin 1)))\<lparr>target_return := NaN\<rparr>"

definition nan_mean_optimiser :: GeneticOptimiser where
  "nan_mean_optimiser = (default_optimiser (one_asset NaN NaN))\<lparr>target_return := Fin 0\<rparr>"

text \<open>A population of one individual, run for \<open>gens\<close> generations.\<close>

definition tiny_optimiser :: "nat \<Rightarrow> GeneticOptimiser" where
  "tiny_optimiser gens =
     (default_optimiser (one_asset (Fin 1) (Fin 1)))\<lparr>population_size := 1, generations := gens\<rparr>"

definition tiny_start :: "nat \<Rightarrow> ga_state" where
  "tiny_start gens =
     initial_state (tiny_optimiser gens) [[Fin 1]] \<lparr>tape = (\<lambda>n. 1 / 2), pos = 1\<rparr>"

definition tiny_next :: ga_state where
  "tiny_next =
     \<lparr>st_population = [[Fin 1]], st_fitnesses = [Fin (- 1)], st_best_weights = [Fin 1],
      st_best_fitness = Fin (- 1), st_generator = \<lparr>tape = (\<lambda>n. 1 / 2), pos = 10\<rparr>\<rparr>"

text \<open>A two-by-two matrix, row by row, of finite entries and of any entries.\<close>

definition mat2 :: "real \<Rightarrow> real \<Rightarrow> real \<Rightarrow> real \<Rightarrow> Matrix" where
  "mat2 a b c d = \<lparr>rows = 2, cols = 2, data = [[Fin a, Fin b], [Fin c, Fin d]]\<rparr>"

definition dmat2 :: "dbl \<Rightarrow> dbl \<Rightarrow> dbl \<Rightarrow> dbl \<Rightarrow> Matrix" where
  "dmat2 a b c d = \<lparr>rows = 2, cols = 2, data = [[a, b], [c, d]]\<rparr>"

section \<open>Facts about doubles\<close>

lemma dle_Fin [simp]: "dle (Fin a) (Fin b) = (a \<le> b)"
  by (auto simp: dle_def)

lemma dgt_Fin [simp]: "dgt (Fin a) (Fin b) = (b < a)"
  by (simp add: dgt_def)

lemma dsub_Fin [simp]: "dsub (Fin a) (Fin b) = Fin (a - b)"
  by (simp add: dsub_def)

lemma dadd_zero_right [simp]: "dadd a (Fin 0) = a"
  by (cases a) auto

lemma dadd_zero_left [simp]: "dadd (Fin 0) a = a"
  by (cases a) auto

lemma dlt_trans: "dlt a b \<Longrightarrow> dlt b c \<Longrightarrow> dlt a c"
  by (cases a; cases b; cases c) auto

lemma dle_not_dgt: "dle a b \<Longrightarrow> \<not> dgt a b"
  by (cases a; cases b) (auto simp: dle_def dgt_def)

lemma isnan_not_dgt: "isnan a \<Longrightarrow> \<not> dgt a b"
  by (cases a; cases b) (auto simp: dgt_def)

lemma risk_value_nonneg:
  "dle (Fin 0) (dsqrt (std_max (Fin 0) v)) \<and> \<not> isnan (dsqrt (std_max (Fin 0) v)) \<and>
   dle (Fin 0) (std_max (Fin 0) v)"
  by (cases v) (auto simp: std_max_def dle_def)

text \<open>
  \<^verbatim>\<open>std::max(0.0, a - b)\<close> is the difference where \<open>b < a\<close> and \<open>0.0\<close> elsewhere, also
  for infinite operands and NaN.
\<close>

lemma std_max_shortfall: "std_max (Fin 0) (dsub a b) = (if dlt b a then dsub a b else Fin 0)"
  by (cases a; cases b) (auto simp: std_max_def dsub_def)

lemma ddiv_one [simp]: "ddiv a (Fin 1) = a"
  by (cases a) (auto simp: signed_inf_def)

section \<open>Matrices and loops\<close>

lemma shaped_zero: "shaped r c (Matrix_zero r c)"
  by (simp add: shaped_def Matrix_zero_def)

lemma cell_zero: "i < r \<Longrightarrow> j < c \<Longrightarrow> cell (Matrix_zero r c) i j = Fin 0"
  by (simp add: cell_def Matrix_zero_def)

lemma shaped_set_cell: "shaped r c m \<Longrightarrow> shaped r c (set_cell m i j v)"
proof (cases "i < length (data m)")
  case True
  assume "shaped r c m"
  with True show ?thesis by (auto simp: shaped_def set_cell_def nth_list_update)
next
  case False
  assume "shaped r c m"
  with False show ?thesis by (simp add: shaped_def set_cell_def)
qed

lemma cell_set_cell:
  "shaped r c m \<Longrightarrow> i < r \<Longrightarrow> j < c \<Longrightarrow>
     cell (set_cell m i j v) i' j' = (if i' = i \<and> j' = j then v else cell m i' j')"
  by (auto simp: shaped_def set_cell_def cell_def nth_list_update)

lemma matrix_ok_shaped: "matrix_ok m \<longleftrightarrow> shaped (rows m) (cols m) m"
  by (auto simp: matrix_ok_def shaped_def list_all_length)

text \<open>Loops: a prefix that fails, and invariants.\<close>

lemma try_fold_append:
  "try_fold f (xs @ ys) s =
     (case try_fold f xs s of Inl e \<Rightarrow> Inl e | Inr s' \<Rightarrow> try_fold f ys s')"
  by (induction xs arbitrary: s) (auto split: sum.splits)

lemma try_fold_invariant:
  assumes "try_fold f [0..<n] s = Inr s'" and "P 0 s"
    and "\<And>k t t'. k < n \<Longrightarrow> P k t \<Longrightarrow> f t k = Inr t' \<Longrightarrow> P (Suc k) t'"
  shows "P n s'"
  using assms
proof (induction n arbitrary: s')
  case 0
  then show ?case by simp
next
  case (Suc n)
  from Suc.prems(1) obtain t where t: "try_fold f [0..<n] s = Inr t" and ft: "f t n = Inr s'"
    by (auto simp: try_fold_append split: sum.splits)
  have "P n t"
    using t Suc.prems(2) Suc.prems(3) by (intro Suc.IH) auto
  then show ?case using ft Suc.prems(3) by blast
qed

lemma foldl_invariant:
  assumes "P 0 s" and "\<And>k t. k < n \<Longrightarrow> P k t \<Longrightarrow> P (Suc k) (f t k)"
  shows "P n (foldl f s [0..<n])"
  using assms by (induction n) auto

text \<open>The constructors establish the invariants of their classes.\<close>

lemma Matrix_of_ok: "Matrix_of d = Inr m \<Longrightarrow> matrix_ok m \<and> data m = d"
  by (auto simp: Matrix_of_def matrix_ok_def list_all_iff list_ex_iff
      split: list.splits if_splits)

lemma covariance_shaped:
  assumes "covariance_matrix m = Inr cov"
  shows "shaped (cols m) (cols m) cov"
proof -
  have cov: "cov = foldl (\<lambda>cov i. foldl (\<lambda>cov j.
                  set_cell cov i j
                    (ddiv (foldl (\<lambda>sum k.
                               dadd sum (dmul (dsub (data m ! k ! i) (mean_per_column m ! i))
                                              (dsub (data m ! k ! j) (mean_per_column m ! j))))
                             (Fin 0) [0..<rows m])
                          (Fin (real (rows m - 1)))))
                  cov [0..<cols m])
                (Matrix_zero (cols m) (cols m)) [0..<cols m]"
    using assms by (auto simp: covariance_matrix_def Let_def split: if_splits)
  show ?thesis
    unfolding cov
    by (intro foldl_invariant [where P = "\<lambda>_ res. shaped (cols m) (cols m) res"])
       (auto simp: shaped_zero shaped_set_cell)
qed

lemma Portfolio_of_ok:
  "Portfolio_of R = Inr p \<Longrightarrow> portfolio_ok p \<and> 1 \<le> num_assets p \<and> returns p = R"
  by (auto simp: Portfolio_of_def portfolio_ok_def mean_per_column_def matrix_ok_def
      list_all_length shaped_def dest!: covariance_shaped split: if_splits sum.splits)

section \<open>Portfolio risk and the Sharpe ratio\<close>

text \<open>
  C9. For every weight vector with one weight per asset, \<open>portfolio_risk\<close> returns a
  value (it does not raise), that value is the square root of the larger of \<open>0.0\<close> and
  the variance, it is at least \<open>0.0\<close>, and it is not NaN: the argument of the square
  root is never below zero, whatever the variance is (negative, infinite or NaN).
\<close>

theorem portfolio_risk_nonneg:
  "length w = num_assets p \<Longrightarrow>
     (\<exists>var r. portfolio_variance p w = Inr var \<and> portfolio_risk p w = Inr r \<and>
        r = dsqrt (std_max (Fin 0) var) \<and> dle (Fin 0) (std_max (Fin 0) var) \<and>
        dle (Fin 0) r \<and> \<not> isnan r)"
  by (simp add: portfolio_risk_def portfolio_variance_def risk_value_nonneg)

text \<open>At a variance of \<open>-1\<close> the risk is \<open>0\<close>.\<close>

theorem portfolio_risk_nonneg_witness:
  "length [Fin 1] = num_assets (one_asset (Fin 1) (Fin (- 1))) \<and>
   portfolio_variance (one_asset (Fin 1) (Fin (- 1))) [Fin 1] = Inr (Fin (- 1)) \<and>
   portfolio_risk (one_asset (Fin 1) (Fin (- 1))) [Fin 1] = Inr (Fin 0) \<and>
   dle (Fin 0) (Fin 0)"
  using portfolio_risk_nonneg [of "[Fin 1]" "one_asset (Fin 1) (Fin (- 1))"]
  by (simp add: one_asset_def portfolio_variance_def portfolio_risk_def cell_def std_max_def)

lemma sharpe_Inr_length: "sharpe_ratio p w rf = Inr s \<Longrightarrow> length w = num_assets p"
  by (auto simp: sharpe_ratio_def portfolio_return_def split: if_splits)

lemma return_is_expected:
  "length w = num_assets p \<Longrightarrow> portfolio_return p w = Inr (expected_return w (means p))"
  by (simp add: portfolio_return_def expected_return_def)

lemma sharpe_riskless: "sharpe_ratio (one_asset (Fin 1) (Fin 0)) [Fin 1] (Fin 0) = Inr PInf"
  by (simp add: sharpe_ratio_def one_asset_def portfolio_return_def portfolio_risk_def
      portfolio_variance_def cell_def std_max_def infinity_def)

lemma sharpe_nan: "sharpe_ratio (one_asset (Fin 0) (Fin 1)) [PInf] (Fin 0) = Inr NaN"
  by (simp add: sharpe_ratio_def one_asset_def portfolio_return_def portfolio_risk_def
      portfolio_variance_def cell_def std_max_def infinity_def dsub_def signed_inf_def)

lemma sharpe_by_cases:
  assumes "portfolio_return p w = Inr ret" and "portfolio_risk p w = Inr risk"
  shows "sharpe_ratio p w rf =
           Inr (if dlt risk (Fin lit_1e_12)
                then (if dgt (dsub ret rf) (Fin lit_1e_12) then PInf else Fin 0)
                else ddiv (dsub ret rf) risk)"
  using assms by (simp add: sharpe_ratio_def infinity_def Let_def)

text \<open>
  C4, as the claim states it, fails in both of its converse halves. With a mean return
  of \<open>0\<close>, a variance of \<open>1\<close> and the weight \<open>1\<close> the risk is \<open>1\<close>, not below \<open>1e-12\<close>;
  yet for a risk-free rate of \<open>0\<close> \<open>sharpe_ratio\<close> returns exactly \<open>0.0\<close>, the quotient
  \<open>0 / 1\<close>, and for a risk-free rate of minus infinity it returns \<open>+\<infinity>\<close>, the quotient
  \<open>+\<infinity> / 1\<close>.
\<close>

theorem sharpe_zero_counterexample:
  "portfolio_risk (one_asset (Fin 0) (Fin 1)) [Fin 1] = Inr (Fin 1) \<and>
   \<not> dlt (Fin 1) (Fin lit_1e_12) \<and>
   sharpe_ratio (one_asset (Fin 0) (Fin 1)) [Fin 1] (Fin 0) = Inr (Fin 0) \<and>
   sharpe_ratio (one_asset (Fin 0) (Fin 1)) [Fin 1] NInf = Inr PInf"
  by (simp add: sharpe_ratio_def one_asset_def portfolio_return_def portfolio_risk_def
      portfolio_variance_def cell_def std_max_def infinity_def dsub_def signed_inf_def)

text \<open>
  C4, amended. For every weight vector with one weight per asset, with \<open>ret\<close> its
  return and \<open>risk\<close> its risk: if \<open>risk < 1e-12\<close> and the excess return \<open>ret - rf\<close> is
  above \<open>1e-12\<close>, \<open>sharpe_ratio\<close> returns \<open>+\<infinity>\<close>; if \<open>risk < 1e-12\<close> and the excess return
  is at most \<open>1e-12\<close>, or is NaN, it returns exactly \<open>0.0\<close>; and if the risk is not below
  \<open>1e-12\<close> it returns the quotient of the excess return by the risk, whatever that
  quotient is (it can itself be \<open>+\<infinity>\<close> or \<open>0.0\<close>, so neither special value tells that the
  risk was below \<open>1e-12\<close>).
\<close>

theorem sharpe_special_cases:
  assumes "length w = num_assets p"
  shows "\<exists>ret risk. portfolio_return p w = Inr ret \<and> portfolio_risk p w = Inr risk \<and>
         (dlt risk (Fin lit_1e_12) \<and> dgt (dsub ret rf) (Fin lit_1e_12) \<longrightarrow>
            sharpe_ratio p w rf = Inr PInf) \<and>
         (dlt risk (Fin lit_1e_12) \<and> dle (dsub ret rf) (Fin lit_1e_12) \<longrightarrow>
            sharpe_ratio p w rf = Inr (Fin 0)) \<and>
         (dlt risk (Fin lit_1e_12) \<and> isnan (dsub ret rf) \<longrightarrow>
            sharpe_ratio p w rf = Inr (Fin 0)) \<and>
         (\<not> dlt risk (Fin lit_1e_12) \<longrightarrow>
            sharpe_ratio p w rf = Inr (ddiv (dsub ret rf) risk))"
proof -
  obtain ret risk where r: "portfolio_return p w = Inr ret" "portfolio_risk p w = Inr risk"
    using assms by (auto simp: portfolio_return_def portfolio_risk_def portfolio_variance_def)
  have "sharpe_ratio p w rf =
           Inr (if dlt risk (Fin lit_1e_12)
                then (if dgt (dsub ret rf) (Fin lit_1e_12) then PInf else Fin 0)
                else ddiv (dsub ret rf) risk)"
    using r by (rule sharpe_by_cases)
  then have "(dlt risk (Fin lit_1e_12) \<and> dgt (dsub ret rf) (Fin lit_1e_12) \<longrightarrow>
            sharpe_ratio p w rf = Inr PInf) \<and>
         (dlt risk (Fin lit_1e_12) \<and> dle (dsub ret rf) (Fin lit_1e_12) \<longrightarrow>
            sharpe_ratio p w rf = Inr (Fin 0)) \<and>
         (dlt risk (Fin lit_1e_12) \<and> isnan (dsub ret rf) \<longrightarrow>
            sharpe_ratio p w rf = Inr (Fin 0)) \<and>
         (\<not> dlt risk (Fin lit_1e_12) \<longrightarrow>
            sharpe_ratio p w rf = Inr (ddiv (dsub ret rf) risk))"
    using dle_not_dgt [of "dsub ret rf" "Fin lit_1e_12"]
      isnan_not_dgt [of "dsub ret rf" "Fin lit_1e_12"]
    by auto
  with r show ?thesis by blast
qed

text \<open>
  A riskless asset with a positive excess return, the same with none, and an asset of
  risk \<open>2\<close> with an excess return of \<open>2\<close>.
\<close>

theorem sharpe_special_cases_witness:
  "length [Fin 1] = num_assets (one_asset (Fin 1) (Fin 0)) \<and>
   portfolio_return (one_asset (Fin 1) (Fin 0)) [Fin 1] = Inr (Fin 1) \<and>
   portfolio_risk (one_asset (Fin 1) (Fin 0)) [Fin 1] = Inr (Fin 0) \<and>
   dlt (Fin 0) (Fin lit_1e_12) \<and> dgt (dsub (Fin 1) (Fin 0)) (Fin lit_1e_12) \<and>
   sharpe_ratio (one_asset (Fin 1) (Fin 0)) [Fin 1] (Fin 0) = Inr PInf \<and>
   dle (dsub (Fin 1) (Fin 1)) (Fin lit_1e_12) \<and>
   sharpe_ratio (one_asset (Fin 1) (Fin 0)) [Fin 1] (Fin 1) = Inr (Fin 0) \<and>
   length [Fin 1] = num_assets (one_asset (Fin 3) (Fin 4)) \<and>
   portfolio_risk (one_asset (Fin 3) (Fin 4)) [Fin 1] = Inr (Fin 2) \<and>
   \<not> dlt (Fin 2) (Fin lit_1e_12) \<and>
   sharpe_ratio (one_asset (Fin 3) (Fin 4)) [Fin 1] (Fin 1) = Inr (Fin 1)"
  using sharpe_special_cases [of "[Fin 1]" "one_asset (Fin 1) (Fin 0)" "Fin 0"]
    sharpe_special_cases [of "[Fin 1]" "one_asset (Fin 1) (Fin 0)" "Fin 1"]
    sharpe_special_cases [of "[Fin 1]" "one_asset (Fin 3) (Fin 4)" "Fin 1"]
  by (simp add: one_asset_def portfolio_return_def portfolio_risk_def portfolio_variance_def
      cell_def std_max_def)

section \<open>Constraints\<close>

lemma validate_bounds_cases:
  "validate_bounds w lo hi = (if spec_bounds_violated w lo hi then Inl BoundsViolated else Inr ())"
  by (induction w) (auto simp: spec_bounds_violated_def)

text \<open>
  C7, as the claim states it, fails: the weights \<open>[1]\<close> sum to one, lie in \<open>[0, 1]\<close> and,
  against the means \<open>[5, 5]\<close>, have an expected return of \<open>5\<close>, above the target \<open>0\<close>; no
  constraint is violated, yet \<open>validate_weights\<close> raises, because the two vectors differ
  in length, and \<open>is_feasible\<close> is false.
\<close>

theorem validate_weights_counterexample:
  "validate_weights [Fin 1] [Fin 5, Fin 5] (Fin 0) (Fin 1) (Fin 0) = Inl TargetSizeMismatch \<and>
   \<not> is_feasible [Fin 1] [Fin 5, Fin 5] (Fin 0) (Fin 1) (Fin 0) \<and>
   \<not> spec_sum_violated [Fin 1] \<and> \<not> spec_bounds_violated [Fin 1] (Fin 0) (Fin 1) \<and>
   \<not> spec_target_violated [Fin 1] [Fin 5, Fin 5] (Fin 0)"
  by (simp add: is_feasible_def validate_weights_def validate_weights_sum_to_one_def
      validate_target_return_def spec_sum_violated_def spec_bounds_violated_def
      spec_target_violated_def expected_return_def accumulate_def EPSILON_def lowest_def)

text \<open>
  C7, amended. For every weight vector, mean vector, pair of bounds and target:
  \<open>is_feasible\<close> is true exactly when \<open>validate_weights\<close> raises nothing, and
  \<open>validate_weights\<close> raises exactly when the sum of the weights is further than
  \<open>EPSILON\<close> from one, or a weight is more than \<open>EPSILON\<close> outside the bounds, or the
  target is above \<open>lowest + EPSILON\<close> (which the sentinel, minus infinity and NaN are not)
  and either the weight and mean vectors differ in length or the expected return plus
  \<open>EPSILON\<close> is below the target. \<open>is_feasible\<close> returns a truth value on every input.
\<close>

theorem validate_weights_raises:
  "(is_feasible w m lo hi t \<longleftrightarrow> validate_weights w m lo hi t = Inr ()) \<and>
   ((\<exists>e. validate_weights w m lo hi t = Inl e) \<longleftrightarrow>
      spec_sum_violated w \<or> spec_bounds_violated w lo hi \<or>
      (dgt t (dadd lowest EPSILON) \<and>
       (length w \<noteq> length m \<or> dlt (dadd (expected_return w m) EPSILON) t)))"
  by (auto simp: is_feasible_def validate_weights_def validate_weights_sum_to_one_def
      validate_bounds_cases validate_target_return_def spec_sum_violated_def Let_def
      split: sum.splits)

text \<open>
  Weights \<open>[1/2, 1/4, 1/4]\<close> with bounds \<open>[0, 1]\<close> and target \<open>0\<close> are feasible; weights
  summing to \<open>5/4\<close> are not; and weights against a mean vector of another length are
  not feasible for the target \<open>0\<close> and feasible for the target NaN.
\<close>

theorem validate_weights_raises_witness:
  "is_feasible [Fin (1 / 2), Fin (1 / 4), Fin (1 / 4)] [Fin 1, Fin 1, Fin 1]
     (Fin 0) (Fin 1) (Fin 0) \<and>
   spec_sum_violated [Fin (1 / 2), Fin (1 / 4), Fin (1 / 2)] \<and>
   \<not> is_feasible [Fin (1 / 2), Fin (1 / 4), Fin (1 / 2)] [Fin 1, Fin 1, Fin 1]
     (Fin 0) (Fin 1) (Fin 0) \<and>
   dgt (Fin 0) (dadd lowest EPSILON) \<and> length [Fin 1] \<noteq> length [Fin 5, Fin 5] \<and>
   \<not> is_feasible [Fin 1] [Fin 5, Fin 5] (Fin 0) (Fin 1) (Fin 0) \<and>
   \<not> dgt NaN (dadd lowest EPSILON) \<and>
   is_feasible [Fin 1] [Fin 5, Fin 5] (Fin 0) (Fin 1) NaN"
  using validate_weights_raises [of "[Fin (1 / 2), Fin (1 / 4), Fin (1 / 4)]"
      "[Fin 1, Fin 1, Fin 1]" "Fin 0" "Fin 1" "Fin 0"]
    validate_weights_raises [of "[Fin (1 / 2), Fin (1 / 4), Fin (1 / 2)]"
      "[Fin 1, Fin 1, Fin 1]" "Fin 0" "Fin 1" "Fin 0"]
    validate_weights_raises [of "[Fin 1]" "[Fin 5, Fin 5]" "Fin 0" "Fin 1" "Fin 0"]
    validate_weights_raises [of "[Fin 1]" "[Fin 5, Fin 5]" "Fin 0" "Fin 1" NaN]
  by (simp add: validate_weights_def validate_weights_sum_to_one_def
      validate_target_return_def spec_sum_violated_def spec_bounds_violated_def
      expected_return_def accumulate_def EPSILON_def lowest_def dgt_def upt_rec)

section \<open>The target-return term\<close>

text \<open>
  C2, as the claim states it, fails: a target of NaN is not the sentinel, and for the
  weight \<open>2\<close> on an asset of mean \<open>1\<close> the expected return \<open>2\<close> is not at least the target
  less \<open>EPSILON\<close>, so the claim's term is the target less the expected return, NaN. The
  term of \<open>constraint_penalty\<close> and the term of \<open>calculate_fitness\<close> are both \<open>0\<close>: the
  program constrains the return only for a target above \<open>lowest + EPSILON\<close>.
\<close>

theorem target_term_counterexample:
  "NaN \<noteq> lowest \<and> length [Fin 2] = length [Fin 1] \<and>
   expected_return [Fin 2] [Fin 1] = Fin 2 \<and>
   \<not> dge (Fin 2) (dsub NaN EPSILON) \<and>
   spec_target_penalty NaN (Fin 2) = NaN \<and>
   penalty_target_term [Fin 2] [Fin 1] NaN = Fin 0 \<and>
   length [Fin 2] = num_assets (portfolio nan_target_optimiser) \<and>
   target_return nan_target_optimiser = NaN \<and>
   fitness_target_ret_penalty nan_target_optimiser [Fin 2] = Inr (Fin 0)"
  by (simp add: spec_target_penalty_def penalty_target_term_def fitness_target_ret_penalty_def
      nan_target_optimiser_def default_optimiser_def one_asset_def expected_return_def
      lowest_def EPSILON_def dge_def dle_def dgt_def dsub_def)

text \<open>
  C2, amended. For a weight vector as long as the mean vector, the target-return term
  of \<open>constraint_penalty\<close> is the target less the expected return if the target is above
  \<open>lowest + EPSILON\<close> and the expected return plus \<open>EPSILON\<close> is below the target, and \<open>0\<close>
  otherwise; so it is \<open>0\<close> for the sentinel. For a weight vector with one weight per
  asset the term of \<open>calculate_fitness\<close> is the same, with the return of the portfolio as
  the expected return. In \<open>constraint_penalty\<close> the term is added to the penalties for the
  sum and the bounds. Nothing is said of vectors of another length.
\<close>

theorem target_term_in_both_paths:
  "guarded_target_penalty lowest er = Fin 0 \<and>
   (length w = length m \<longrightarrow>
      penalty_target_term w m t = guarded_target_penalty t (expected_return w m)) \<and>
   (length w = num_assets (portfolio opt) \<longrightarrow>
      portfolio_return (portfolio opt) w = Inr (expected_return w (means (portfolio opt))) \<and>
      fitness_target_ret_penalty opt w =
        Inr (guarded_target_penalty (target_return opt)
               (expected_return w (means (portfolio opt))))) \<and>
   (length w = num_assets (portfolio opt) \<and> length w = length (means (portfolio opt)) \<longrightarrow>
      fitness_target_ret_penalty opt w =
        Inr (penalty_target_term w (means (portfolio opt)) (target_return opt))) \<and>
   constraint_penalty w m lo hi t =
     dadd (foldl (penalty_bounds_step lo hi) (fabs (dsub (accumulate w) (Fin 1))) w)
          (penalty_target_term w m t)"
  by (simp add: guarded_target_penalty_def penalty_target_term_def constraint_penalty_def
      fitness_target_ret_penalty_def get_num_assets_def return_is_expected
      lowest_def EPSILON_def)

text \<open>
  With the target \<open>3\<close> and the mean \<open>1\<close>, the weight \<open>2\<close> falls short by \<open>1\<close> on both paths
  and the weight \<open>5\<close> by nothing; with the sentinel as target the term is \<open>0\<close>.
\<close>

theorem target_term_in_both_paths_witness:
  "length [Fin 2] = length [Fin 1] \<and>
   length [Fin 2] = num_assets (portfolio target_optimiser) \<and>
   length [Fin 2] = length (means (portfolio target_optimiser)) \<and>
   target_return target_optimiser = Fin 3 \<and>
   penalty_target_term [Fin 2] [Fin 1] (Fin 3) = Fin 1 \<and>
   fitness_target_ret_penalty target_optimiser [Fin 2] = Inr (Fin 1) \<and>
   penalty_target_term [Fin 5] [Fin 1] (Fin 3) = Fin 0 \<and>
   fitness_target_ret_penalty target_optimiser [Fin 5] = Inr (Fin 0) \<and>
   penalty_target_term [Fin 2] [Fin 1] lowest = Fin 0"
  using target_term_in_both_paths [where w = "[Fin 2]" and m = "[Fin 1]" and t = "Fin 3"
      and opt = target_optimiser]
    target_term_in_both_paths [where w = "[Fin 5]" and m = "[Fin 1]" and t = "Fin 3"
      and opt = target_optimiser]
    target_term_in_both_paths [where w = "[Fin 2]" and m = "[Fin 1]" and t = lowest
      and opt = target_optimiser]
  by (simp add: target_optimiser_def default_optimiser_def one_asset_def expected_return_def
      guarded_target_penalty_def lowest_def EPSILON_def)

text \<open>
  Where the lengths differ the two paths part. For a target above \<open>lowest + EPSILON\<close>
  the term of \<open>constraint_penalty\<close> is \<open>1000\<close>, and \<open>1000\<close> is the whole penalty of the
  weights \<open>[1]\<close> against an empty mean vector; \<open>calculate_fitness\<close> has a branch that sets
  its term to \<open>100\<close>, but never reaches it: \<open>sharpe_ratio\<close>, which it calls first, raises.
\<close>

lemma penalty_target_term_mismatch:
  "dgt t (dadd lowest EPSILON) \<Longrightarrow> length w \<noteq> length m \<Longrightarrow> penalty_target_term w m t = Fin 1000"
  by (simp add: penalty_target_term_def)

lemma constraint_penalty_mismatch:
  "constraint_penalty [Fin 1] [] (Fin 0) (Fin 1) (Fin 0) = Fin 1000"
  by (simp add: penalty_target_term_def constraint_penalty_def penalty_bounds_step_def
      accumulate_def EPSILON_def lowest_def)

lemma calculate_fitness_mismatch:
  "length w \<noteq> num_assets (portfolio opt) \<Longrightarrow> calculate_fitness opt w = Inl ReturnSizeMismatch"
  by (simp add: calculate_fitness_def sharpe_ratio_def portfolio_return_def)

section \<open>Fitness\<close>

lemma bounds_step_eq:
  "fitness_bounds_step lo hi acc w =
     dadd (dadd acc (std_max (Fin 0) (dsub lo w))) (std_max (Fin 0) (dsub w hi))"
  by (simp add: fitness_bounds_step_def std_max_shortfall dgt_def Let_def)

lemma bounds_fold_eq:
  "foldl (fitness_bounds_step lo hi) (Fin 0) w = spec_bounds_penalty lo hi w"
proof -
  have "foldl (fitness_bounds_step lo hi) acc w =
        foldl (\<lambda>sum wi. dadd (dadd sum (std_max (Fin 0) (dsub lo wi)))
                           (std_max (Fin 0) (dsub wi hi))) acc w" for acc
    by (induction w arbitrary: acc) (simp_all add: bounds_step_eq)
  then show ?thesis by (simp add: spec_bounds_penalty_def)
qed

text \<open>
  C1, as the claim states it, fails on two inputs with one weight for the one asset and
  a finite Sharpe ratio. With a target of NaN and the weight \<open>2\<close> on an asset of mean
  and variance \<open>1\<close>, the Sharpe ratio is \<open>1\<close>, the expected return \<open>2\<close> and the fitness
  \<open>199\<close>, where the claim's formula is NaN (the target is not the sentinel and the
  expected return is not at least the target less \<open>EPSILON\<close>). With the target \<open>0\<close> and
  the weight \<open>1\<close> on an asset of mean and variance NaN, the risk is the root of
  \<open>max(0, NaN)\<close>, that is \<open>0\<close>, the Sharpe ratio is \<open>0\<close>, the expected return NaN and the
  fitness \<open>0\<close>, where the claim's formula is again NaN.
\<close>

theorem fitness_formula_counterexample:
  "length [Fin 2] = num_assets (portfolio nan_target_optimiser) \<and>
   sharpe_ratio (portfolio nan_target_optimiser) [Fin 2]
     (risk_free_rate nan_target_optimiser) = Inr (Fin 1) \<and>
   portfolio_return (portfolio nan_target_optimiser) [Fin 2] = Inr (Fin 2) \<and>
   calculate_fitness nan_target_optimiser [Fin 2] = Inr (Fin 199) \<and>
   spec_fitness nan_target_optimiser [Fin 2] (Fin 1) (Fin 2) = NaN \<and>
   length [Fin 1] = num_assets (portfolio nan_mean_optimiser) \<and>
   sharpe_ratio (portfolio nan_mean_optimiser) [Fin 1]
     (risk_free_rate nan_mean_optimiser) = Inr (Fin 0) \<and>
   portfolio_return (portfolio nan_mean_optimiser) [Fin 1] = Inr NaN \<and>
   calculate_fitness nan_mean_optimiser [Fin 1] = Inr (Fin 0) \<and>
   spec_fitness nan_mean_optimiser [Fin 1] (Fin 0) NaN = NaN"
  by (simp add: nan_target_optimiser_def nan_mean_optimiser_def default_optimiser_def
      one_asset_def calculate_fitness_def sharpe_ratio_def portfolio_return_def
      portfolio_risk_def portfolio_variance_def cell_def std_max_def
      fitness_target_ret_penalty_def fitness_bounds_step_def get_num_assets_def
      spec_fitness_def spec_sum_penalty_def spec_bounds_penalty_def spec_target_penalty_def
      accumulate_def lowest_def EPSILON_def infinity_def dge_def dle_def dgt_def dsub_def)

text \<open>
  C1, amended. For every weight vector \<open>w\<close> with one weight per asset whose Sharpe ratio
  is a finite number \<open>s\<close>, the fitness is \<open>-s\<close> plus the total penalty, and the total
  penalty is the sum penalty times its multiplier, plus the bounds penalty times its
  multiplier, plus the target penalty times its multiplier. The sum penalty is the
  distance of the sum of the weights from \<open>1\<close>; the bounds penalty is the running sum,
  over the weights in turn, of \<open>max(0, lower - w\<^sub>i)\<close> and \<open>max(0, w\<^sub>i - upper)\<close>; the
  target penalty is the target less the expected return if the target is above
  \<open>lowest + EPSILON\<close> and the expected return plus \<open>EPSILON\<close> is below the target, and \<open>0\<close>
  otherwise (so \<open>0\<close> for the sentinel, for a target of NaN and for an expected return of
  NaN). The expected return is the return of the portfolio for \<open>w\<close>.
\<close>

theorem fitness_formula:
  assumes "length w = num_assets (portfolio opt)"
    and "sharpe_ratio (portfolio opt) w (risk_free_rate opt) = Inr (Fin s)"
  shows "portfolio_return (portfolio opt) w = Inr (expected_return w (means (portfolio opt))) \<and>
     calculate_fitness opt w =
     Inr (dadd (dneg (Fin s))
            (dadd (dadd (dmul (spec_sum_penalty w) (sum_penalty_multiplier opt))
                        (dmul (spec_bounds_penalty (lower_bound opt) (upper_bound opt) w)
                              (bounds_penalty_multiplier opt)))
                  (dmul (guarded_target_penalty (target_return opt)
                           (expected_return w (means (portfolio opt))))
                        (target_return_penalty_multiplier opt))))"
proof -
  have r: "portfolio_return (portfolio opt) w = Inr (expected_return w (means (portfolio opt)))"
    using assms(1) by (rule return_is_expected)
  have t: "fitness_target_ret_penalty opt w =
             Inr (guarded_target_penalty (target_return opt)
                    (expected_return w (means (portfolio opt))))"
    using assms(1) r
    by (simp add: fitness_target_ret_penalty_def get_num_assets_def guarded_target_penalty_def)
  show ?thesis
    using assms(2) r t bounds_fold_eq [of "lower_bound opt" "upper_bound opt" w]
    by (simp add: calculate_fitness_def spec_sum_penalty_def infinity_def)
qed

text \<open>
  One asset of mean \<open>1\<close> and variance \<open>1\<close>, bounds \<open>[0, 1]\<close>, target \<open>3\<close> and the weight
  \<open>2\<close>: the Sharpe ratio is \<open>1\<close>, each penalty is \<open>1\<close>, the multipliers are \<open>100\<close>, \<open>100\<close>
  and \<open>1000\<close>, and the fitness is \<open>1199\<close>.
\<close>

theorem fitness_formula_witness:
  "length [Fin 2] = num_assets (portfolio target_optimiser) \<and>
   sharpe_ratio (portfolio target_optimiser) [Fin 2] (risk_free_rate target_optimiser) =
     Inr (Fin 1) \<and>
   spec_sum_penalty [Fin 2] = Fin 1 \<and>
   spec_bounds_penalty (Fin 0) (Fin 1) [Fin 2] = Fin 1 \<and>
   guarded_target_penalty (Fin 3) (Fin 2) = Fin 1 \<and>
   calculate_fitness target_optimiser [Fin 2] = Inr (Fin 1199)"
  using fitness_formula [of "[Fin 2]" target_optimiser 1]
  by (simp add: target_optimiser_def default_optimiser_def one_asset_def sharpe_ratio_def
      portfolio_return_def portfolio_risk_def portfolio_variance_def cell_def std_max_def
      spec_sum_penalty_def spec_bounds_penalty_def guarded_target_penalty_def
      expected_return_def accumulate_def lowest_def EPSILON_def)

lemma target_penalty_total:
  "length w = num_assets (portfolio opt) \<Longrightarrow> \<exists>t. fitness_target_ret_penalty opt w = Inr t"
  by (simp add: fitness_target_ret_penalty_def portfolio_return_def get_num_assets_def)

text \<open>
  C3. Whenever \<open>sharpe_ratio\<close> returns \<open>+\<infinity>\<close> for a weight vector (it returns a value only
  for one weight per asset), \<open>calculate_fitness\<close> returns \<open>-\<infinity>\<close>, and whenever it returns
  NaN, \<open>calculate_fitness\<close> returns the largest finite double; the bounds, the target and
  the multipliers of the optimiser have no part in either result.
\<close>

theorem fitness_sentinels:
  "(sharpe_ratio (portfolio opt) w (risk_free_rate opt) = Inr PInf \<longrightarrow>
      length w = num_assets (portfolio opt) \<and> calculate_fitness opt w = Inr NInf) \<and>
   (sharpe_ratio (portfolio opt) w (risk_free_rate opt) = Inr NaN \<longrightarrow>
      length w = num_assets (portfolio opt) \<and> calculate_fitness opt w = Inr numeric_max)"
proof (intro conjI impI)
  assume s: "sharpe_ratio (portfolio opt) w (risk_free_rate opt) = Inr PInf"
  from sharpe_Inr_length [OF s] show "length w = num_assets (portfolio opt)" .
  then obtain t where "fitness_target_ret_penalty opt w = Inr t"
    using target_penalty_total by blast
  with s show "calculate_fitness opt w = Inr NInf"
    by (simp add: calculate_fitness_def infinity_def)
next
  assume s: "sharpe_ratio (portfolio opt) w (risk_free_rate opt) = Inr NaN"
  from sharpe_Inr_length [OF s] show "length w = num_assets (portfolio opt)" .
  then obtain t where "fitness_target_ret_penalty opt w = Inr t"
    using target_penalty_total by blast
  with s show "calculate_fitness opt w = Inr numeric_max"
    by (simp add: calculate_fitness_def infinity_def)
qed

text \<open>
  A riskless asset with a positive return has the fitness \<open>-\<infinity>\<close>; an infinite weight on
  an asset of mean \<open>0\<close> has a NaN Sharpe ratio and the fitness \<open>numeric_max\<close>.
\<close>

theorem fitness_sentinels_witness:
  "sharpe_ratio (one_asset (Fin 1) (Fin 0)) [Fin 1] (Fin 0) = Inr PInf \<and>
   calculate_fitness (default_optimiser (one_asset (Fin 1) (Fin 0))) [Fin 1] = Inr NInf \<and>
   sharpe_ratio (one_asset (Fin 0) (Fin 1)) [PInf] (Fin 0) = Inr NaN \<and>
   calculate_fitness (default_optimiser (one_asset (Fin 0) (Fin 1))) [PInf] = Inr numeric_max"
  using fitness_sentinels [of "default_optimiser (one_asset (Fin 1) (Fin 0))" "[Fin 1]"]
    fitness_sentinels [of "default_optimiser (one_asset (Fin 0) (Fin 1))" "[PInf]"]
    sharpe_riskless sharpe_nan
  by (simp add: default_optimiser_def)

section \<open>Normalisation\<close>

text \<open>
  C8, as the claim states it, fails: the weights \<open>[+\<infinity>, 1]\<close> sum to \<open>+\<infinity>\<close>, above
  \<open>1e-12\<close>, and \<open>normalize\<close> returns \<open>[NaN, 0]\<close>, whose sum is NaN, not within \<open>1e-9\<close> of
  \<open>1\<close>; normalising that again returns \<open>[NaN, NaN]\<close>, another vector.
\<close>

theorem normalize_counterexample:
  "accumulate [PInf, Fin 1] = PInf \<and> dgt PInf (Fin lit_1e_12) \<and>
   normalize_vec [PInf, Fin 1] = Inr [NaN, Fin 0] \<and>
   accumulate [NaN, Fin 0] = NaN \<and>
   \<not> dle (fabs (dsub NaN (Fin 1))) (Fin (4835703278458517 / 2 ^ 82)) \<and>
   normalize_vec [NaN, Fin 0] = Inr [NaN, NaN] \<and>
   [NaN, NaN] \<noteq> [NaN, Fin 0]"
  by (simp add: normalize_vec_def accumulate_def dgt_def dle_def dsub_def)

text \<open>
  C8, amended. For every weight vector, \<open>normalize\<close> fails exactly when the sum of the
  weights, accumulated from \<open>0.0\<close> in their order, is below \<open>1e-12\<close>, and then with its
  error for a sum that is zero or negative; otherwise it returns every weight divided by
  that sum. A vector whose accumulated sum is exactly \<open>1.0\<close> is returned as it is, so a
  second normalisation changes nothing where the first result sums to exactly \<open>1.0\<close>.
  (That every result does, or sums to \<open>1.0\<close> within \<open>1e-9\<close>, is not said.)
\<close>

theorem normalize_fails_or_divides:
  "((\<exists>e. normalize_vec w = Inl e) \<longleftrightarrow> dlt (accumulate w) (Fin lit_1e_12)) \<and>
   (normalize_vec w = Inl e \<longrightarrow> e = NormalizeZeroSum) \<and>
   (\<not> dlt (accumulate w) (Fin lit_1e_12) \<longrightarrow>
      normalize_vec w = Inr (map (\<lambda>x. ddiv x (accumulate w)) w)) \<and>
   (accumulate w = Fin 1 \<longrightarrow> normalize_vec w = Inr w) \<and>
   (normalize_vec w = Inr v \<and> accumulate v = Fin 1 \<longrightarrow> normalize_vec v = Inr v)"
  by (auto simp: normalize_vec_def Let_def)

text \<open>
  The weights \<open>[1, 3]\<close> become \<open>[1/4, 3/4]\<close>, which sum to \<open>1\<close> and stay as they are;
  \<open>[0, 0]\<close> cannot be normalised.
\<close>

theorem normalize_fails_or_divides_witness:
  "accumulate [Fin 1, Fin 3] = Fin 4 \<and> \<not> dlt (Fin 4) (Fin lit_1e_12) \<and>
   normalize_vec [Fin 1, Fin 3] = Inr [Fin (1 / 4), Fin (3 / 4)] \<and>
   accumulate [Fin (1 / 4), Fin (3 / 4)] = Fin 1 \<and>
   normalize_vec [Fin (1 / 4), Fin (3 / 4)] = Inr [Fin (1 / 4), Fin (3 / 4)] \<and>
   accumulate [Fin 0, Fin 0] = Fin 0 \<and> dlt (Fin 0) (Fin lit_1e_12) \<and>
   normalize_vec [Fin 0, Fin 0] = Inl NormalizeZeroSum"
  using normalize_fails_or_divides [of "[Fin 1, Fin 3]" _ "[Fin (1 / 4), Fin (3 / 4)]"]
    normalize_fails_or_divides [of "[Fin (1 / 4), Fin (3 / 4)]"]
    normalize_fails_or_divides [of "[Fin 0, Fin 0]" NormalizeZeroSum]
  by (simp add: normalize_vec_def accumulate_def)

section \<open>The optimiser's best fitness\<close>

lemma not_worse_refl: "not_worse st st"
  by (simp add: not_worse_def)

lemma not_worse_trans: "not_worse a b \<Longrightarrow> not_worse b c \<Longrightarrow> not_worse a c"
  by (auto simp: not_worse_def intro: dlt_trans)

lemma generation_best:
  assumes "generation opt st = Inr st'"
  shows "\<exists>fs. evaluate opt (st_population st) (st_fitnesses st) = Inr fs \<and>
           st_best_fitness st' =
             (if dlt (fs ! min_element fs) (st_best_fitness st) then fs ! min_element fs
              else st_best_fitness st)"
  using assms
  by (auto simp: generation_def Let_def split: sum.splits if_splits prod.splits)

lemma generation_not_worse: "generation opt st = Inr st' \<Longrightarrow> not_worse st st'"
  by (drule generation_best) (auto simp: not_worse_def)

text \<open>The loop over the generations, unrolled at its last pass.\<close>

lemma loop_snoc:
  "generations_loop opt (Suc k) st =
     (case generations_loop opt k st of Inl e \<Rightarrow> Inl e | Inr s \<Rightarrow> generation opt s)"
proof (induction k arbitrary: st)
  case 0
  show ?case by (simp split: sum.splits)
next
  case (Suc k)
  show ?case
  proof (cases "generation opt st")
    case (Inl e)
    then show ?thesis by simp
  next
    case (Inr s)
    have "generations_loop opt (Suc (Suc k)) st = generations_loop opt (Suc k) s"
      using Inr by simp
    also have "\<dots> = (case generations_loop opt k s of
                          Inl e \<Rightarrow> Inl e | Inr s \<Rightarrow> generation opt s)"
      by (rule Suc.IH)
    also have "\<dots> = (case generations_loop opt (Suc k) st of
                          Inl e \<Rightarrow> Inl e | Inr s \<Rightarrow> generation opt s)"
      using Inr by simp
    finally show ?thesis .
  qed
qed

lemma loop_not_worse: "generations_loop opt k st = Inr st' \<Longrightarrow> not_worse st st'"
proof (induction k arbitrary: st)
  case 0
  then show ?case by (simp add: not_worse_refl)
next
  case (Suc k)
  then show ?case
    by (auto split: sum.splits intro: not_worse_trans generation_not_worse)
qed

lemma final_not_worse: "final_recompute opt st = Inr st' \<Longrightarrow> not_worse st st'"
  by (auto simp: final_recompute_def not_worse_def split: sum.splits if_splits)

text \<open>
  C6. In a run from any state, for any optimiser and any tape of random draws: if \<open>st1\<close>
  is the state after \<open>k\<close> generations and \<open>st2\<close> the state after \<open>k + 1\<close>, the best fitness
  of \<open>st2\<close> is that of \<open>st1\<close> or strictly lower, and it is the minimum fitness of the
  generation just evaluated exactly when that minimum is strictly lower than the best
  fitness of \<open>st1\<close>; over any number of generations the best fitness never rises; and the
  final recomputation leaves it as it is or lowers it, and leaves the best weights alone.
  A run of \<open>optimise\<close> that returns is the initial population, the loop from the initial
  state and the final recomputation, so its best fitness never rises from start to end.
\<close>

theorem best_fitness_never_regresses:
  "(generations_loop opt k st0 = Inr st1 \<and> generations_loop opt (Suc k) st0 = Inr st2 \<longrightarrow>
      not_worse st1 st2 \<and>
      (\<exists>fs. evaluate opt (st_population st1) (st_fitnesses st1) = Inr fs \<and>
         st_best_fitness st2 =
           (if dlt (fs ! min_element fs) (st_best_fitness st1) then fs ! min_element fs
            else st_best_fitness st1))) \<and>
   (generations_loop opt k st0 = Inr st1 \<longrightarrow> not_worse st0 st1) \<and>
   (final_recompute opt st1 = Inr st2 \<longrightarrow>
      not_worse st1 st2 \<and> st_best_weights st2 = st_best_weights st1) \<and>
   (optimise_run opt = Inr st \<longrightarrow>
      (\<exists>pop gen st'.
         init_population opt (population_size opt) (generator opt) = Inr (pop, gen) \<and>
         generations_loop opt (generations opt) (initial_state opt pop gen) = Inr st' \<and>
         final_recompute opt st' = Inr st \<and>
         not_worse (initial_state opt pop gen) st' \<and> not_worse st' st))"
proof (intro conjI impI)
  assume a: "generations_loop opt k st0 = Inr st1 \<and> generations_loop opt (Suc k) st0 = Inr st2"
  then have a1: "generations_loop opt k st0 = Inr st1"
    and a2: "generations_loop opt (Suc k) st0 = Inr st2" by blast+
  from a2 have g: "generation opt st1 = Inr st2"
    unfolding loop_snoc by (simp add: a1)
  then show "not_worse st1 st2" by (rule generation_not_worse)
  from g show "\<exists>fs. evaluate opt (st_population st1) (st_fitnesses st1) = Inr fs \<and>
         st_best_fitness st2 =
           (if dlt (fs ! min_element fs) (st_best_fitness st1) then fs ! min_element fs
            else st_best_fitness st1)" by (rule generation_best)
next
  assume "generations_loop opt k st0 = Inr st1"
  then show "not_worse st0 st1" by (rule loop_not_worse)
next
  assume a: "final_recompute opt st1 = Inr st2"
  then show "not_worse st1 st2" by (rule final_not_worse)
  from a show "st_best_weights st2 = st_best_weights st1"
    by (auto simp: final_recompute_def split: sum.splits if_splits)
next
  assume "optimise_run opt = Inr st"
  then obtain pop gen st'
    where "init_population opt (population_size opt) (generator opt) = Inr (pop, gen)"
      and "generations_loop opt (generations opt) (initial_state opt pop gen) = Inr st'"
      and "final_recompute opt st' = Inr st"
    by (auto simp: optimise_run_def split: sum.splits prod.splits)
  then show "\<exists>pop gen st'.
         init_population opt (population_size opt) (generator opt) = Inr (pop, gen) \<and>
         generations_loop opt (generations opt) (initial_state opt pop gen) = Inr st' \<and>
         final_recompute opt st' = Inr st \<and>
         not_worse (initial_state opt pop gen) st' \<and> not_worse st' st"
    using loop_not_worse final_not_worse by blast
qed

text \<open>The run of \<open>tiny_optimiser\<close>, one step at a time.\<close>

lemma tiny_fields:
  "population_size (tiny_optimiser n) = 1" "generations (tiny_optimiser n) = n"
  "generator (tiny_optimiser n) = \<lparr>tape = (\<lambda>n. 1 / 2), pos = 0\<rparr>"
  "portfolio (tiny_optimiser n) = one_asset (Fin 1) (Fin 1)"
  "lower_bound (tiny_optimiser n) = Fin 0" "upper_bound (tiny_optimiser n) = Fin 1"
  by (simp_all add: tiny_optimiser_def default_optimiser_def)

lemma tiny_fitness: "calculate_fitness (tiny_optimiser n) [Fin 1] = Inr (Fin (- 1))"
  by (simp add: calculate_fitness_def tiny_optimiser_def default_optimiser_def one_asset_def
      sharpe_ratio_def portfolio_return_def portfolio_risk_def portfolio_variance_def cell_def
      std_max_def fitness_target_ret_penalty_def fitness_bounds_step_def accumulate_def
      lowest_def EPSILON_def infinity_def)

lemma tiny_select:
  "select_parent [[Fin 1]] [Fin (- 1)] \<lparr>tape = (\<lambda>n. 1 / 2), pos = k\<rparr> =
     Inr ([Fin 1], \<lparr>tape = (\<lambda>n. 1 / 2), pos = k + 3\<rparr>)"
  by (simp add: select_parent_def tournament_round_def uniform_int_def unit_draw_def
      advance_def upt_rec numeral_3_eq_3)

lemma tiny_crossover:
  "crossover (tiny_optimiser n) [Fin 1] [Fin 1] \<lparr>tape = (\<lambda>n. 1 / 2), pos = k\<rparr> =
     Inr ([Fin 1], [Fin 1], \<lparr>tape = (\<lambda>n. 1 / 2), pos = k + 1\<rparr>)"
  by (simp add: crossover_def crossover_gene_def bernoulli_def unit_draw_def advance_def
      normalize_vec_def accumulate_def tiny_optimiser_def default_optimiser_def)

lemma tiny_mutate:
  "mutate (tiny_optimiser n) [Fin 1] \<lparr>tape = (\<lambda>n. 1 / 2), pos = k\<rparr> =
     Inr ([Fin 1], \<lparr>tape = (\<lambda>n. 1 / 2), pos = k + 1\<rparr>)"
  by (simp add: mutate_def uniform_real_def unit_draw_def advance_def
      tiny_optimiser_def default_optimiser_def)

lemma tiny_breed:
  "breed (tiny_optimiser n) [[Fin 1]] [Fin (- 1)] [] \<lparr>tape = (\<lambda>n. 1 / 2), pos = k\<rparr> =
     Inr ([[Fin 1]], \<lparr>tape = (\<lambda>n. 1 / 2), pos = k + 9\<rparr>)"
  by (simp add: breed_def tiny_select tiny_crossover tiny_mutate tiny_fields)

lemma tiny_reproduce:
  "reproduce (tiny_optimiser n) [[Fin 1]] [Fin (- 1)] [] \<lparr>tape = (\<lambda>n. 1 / 2), pos = k\<rparr> =
     Inr ([[Fin 1]], \<lparr>tape = (\<lambda>n. 1 / 2), pos = k + 9\<rparr>)"
  by (subst reproduce.simps, simp add: tiny_breed tiny_fields)
     (subst reproduce.simps, simp add: tiny_fields)

lemma tiny_evaluate: "evaluate (tiny_optimiser n) [[Fin 1]] [Fin 0] = Inr [Fin (- 1)]"
  by (simp add: evaluate_def tiny_fitness tiny_fields)

lemma tiny_generation: "generation (tiny_optimiser n) (tiny_start n) = Inr tiny_next"
  by (simp add: generation_def tiny_start_def tiny_next_def initial_state_def tiny_fields
      tiny_evaluate min_element_def numeric_max_def tiny_reproduce)

lemma tiny_init:
  "init_population (tiny_optimiser n) (Suc 0) \<lparr>tape = (\<lambda>n. 1 / 2), pos = 0\<rparr> =
     Inr ([[Fin 1]], \<lparr>tape = (\<lambda>n. 1 / 2), pos = Suc 0\<rparr>)"
  by (simp add: tiny_fields get_num_assets_def one_asset_def random_weights_def
      uniform_real_def unit_draw_def advance_def clip_weights_def std_clamp_def
      normalize_vec_def accumulate_def)

text \<open>
  One generation of \<open>tiny_optimiser\<close> lowers the best fitness from \<open>numeric_max\<close> to
  \<open>-1\<close>, and the final recomputation keeps it.
\<close>

theorem best_fitness_never_regresses_witness:
  "generations_loop (tiny_optimiser 1) 0 (tiny_start 1) = Inr (tiny_start 1) \<and>
   generations_loop (tiny_optimiser 1) (Suc 0) (tiny_start 1) = Inr tiny_next \<and>
   st_best_fitness (tiny_start 1) = numeric_max \<and>
   st_best_fitness tiny_next = Fin (- 1) \<and>
   dlt (Fin (- 1)) numeric_max \<and>
   final_recompute (tiny_optimiser 1) tiny_next = Inr tiny_next \<and>
   optimise_run (tiny_optimiser 1) = Inr tiny_next \<and>
   optimise (tiny_optimiser 1) = Inr [Fin 1]"
proof -
  have l0: "generations_loop (tiny_optimiser 1) 0 (tiny_start 1) = Inr (tiny_start 1)"
    by simp
  have l1: "generations_loop (tiny_optimiser 1) (Suc 0) (tiny_start 1) = Inr tiny_next"
    by (simp add: tiny_generation)
  have b0: "st_best_fitness (tiny_start 1) = numeric_max"
    by (simp add: tiny_start_def initial_state_def)
  have b1: "st_best_fitness tiny_next = Fin (- 1)"
    by (simp add: tiny_next_def)
  have fin: "final_recompute (tiny_optimiser 1) tiny_next = Inr tiny_next"
    by (simp add: final_recompute_def tiny_next_def tiny_fitness)
  have run: "optimise_run (tiny_optimiser 1) = Inr tiny_next"
    using tiny_init [of 1] l1 fin
    by (simp add: optimise_run_def tiny_fields tiny_start_def)
  have "not_worse (tiny_start 1) tiny_next"
    using best_fitness_never_regresses [of "tiny_optimiser 1" 0 "tiny_start 1" "tiny_start 1"
        tiny_next tiny_next] l0 l1 by blast
  then have "dlt (Fin (- 1)) numeric_max"
    by (simp add: not_worse_def b0 b1) (simp add: numeric_max_def)
  with l0 l1 b0 b1 fin run show ?thesis
    by (simp add: optimise_def tiny_next_def)
qed

section \<open>A run of no generations\<close>





section \<open>Cholesky decomposition\<close>

lemma filled_row_done: "filled i (Suc i) r c \<longleftrightarrow> filled (Suc i) 0 r c"
  by (auto simp: filled_def)

lemma try_fold_fails:
  "try_fold f [0..<n] s = Inl e \<longleftrightarrow>
     (\<exists>i<n. \<exists>t. try_fold f [0..<i] s = Inr t \<and> f t i = Inl e)"
proof (induction n)
  case 0
  then show ?case by simp
next
  case (Suc n)
  show ?case
  proof (cases "try_fold f [0..<n] s")
    case (Inl e')
    with Suc have ex: "e' = e \<longleftrightarrow> (\<exists>i<n. \<exists>t. try_fold f [0..<i] s = Inr t \<and> f t i = Inl e)"
      by simp
    have "try_fold f [0..<Suc n] s = Inl e \<longleftrightarrow> e' = e"
      using Inl by (simp add: try_fold_append)
    also have "\<dots> \<longleftrightarrow> (\<exists>i<Suc n. \<exists>t. try_fold f [0..<i] s = Inr t \<and> f t i = Inl e)"
      using ex Inl by (auto simp: less_Suc_eq)
    finally show ?thesis .
  next
    case (Inr t)
    with Suc have no: "\<not> (\<exists>i<n. \<exists>t. try_fold f [0..<i] s = Inr t \<and> f t i = Inl e)"
      by simp
    have "try_fold f [0..<Suc n] s = Inl e \<longleftrightarrow> f t n = Inl e"
      using Inr by (simp add: try_fold_append split: sum.splits)
    also have "\<dots> \<longleftrightarrow> (\<exists>i<Suc n. \<exists>t. try_fold f [0..<i] s = Inr t \<and> f t i = Inl e)"
      using no Inr by (auto simp: less_Suc_eq)
    finally show ?thesis .
  qed
qed

lemma cholesky_cell_fails:
  "cholesky_cell A L i j = Inl e \<longleftrightarrow>
     i = j \<and> e = NotPositiveDefinite \<and> dle (dsub (data A ! i ! i) (cholesky_sum L i i)) (Fin 0)"
  by (auto simp: cholesky_cell_def Let_def)

lemma cholesky_row_fails:
  "cholesky_row A L i = Inl e \<longleftrightarrow>
     e = NotPositiveDefinite \<and>
     (\<exists>t. try_fold (\<lambda>L j. cholesky_cell A L i j) [0..<i] L = Inr t \<and>
          dle (dsub (data A ! i ! i) (cholesky_sum t i i)) (Fin 0))"
  unfolding cholesky_row_def try_fold_fails cholesky_cell_fails by auto

lemma diagonal_term_iff:
  "(\<exists>v. diagonal_term A i = Inr v \<and> dle v (Fin 0)) \<longleftrightarrow>
     (\<exists>t u. try_fold (cholesky_row A) [0..<i] (Matrix_zero (rows A) (rows A)) = Inr t \<and>
        try_fold (\<lambda>L j. cholesky_cell A L i j) [0..<i] t = Inr u \<and>
        dle (dsub (data A ! i ! i) (cholesky_sum u i i)) (Fin 0))"
  by (auto simp: diagonal_term_def split: sum.splits)

lemma cholesky_fails:
  "(\<exists>e. cholesky_decompose A = Inl e) \<longleftrightarrow>
     rows A \<noteq> cols A \<or> (\<exists>i<rows A. \<exists>v. diagonal_term A i = Inr v \<and> dle v (Fin 0))"
proof (cases "rows A = cols A")
  case False
  then show ?thesis by (simp add: cholesky_decompose_def)
next
  case True
  have "(\<exists>e. cholesky_decompose A = Inl e) \<longleftrightarrow>
        (\<exists>e. try_fold (cholesky_row A) [0..<rows A] (Matrix_zero (rows A) (rows A)) = Inl e)"
    using True by (simp add: cholesky_decompose_def)
  also have "\<dots> \<longleftrightarrow> (\<exists>i<rows A. \<exists>v. diagonal_term A i = Inr v \<and> dle v (Fin 0))"
    unfolding try_fold_fails cholesky_row_fails diagonal_term_iff by blast
  finally show ?thesis using True by simp
qed

lemma cholesky_error:
  "cholesky_decompose A = Inl e \<Longrightarrow>
     e = (if rows A \<noteq> cols A then CholeskyNotSquare else NotPositiveDefinite)"
  by (auto simp: cholesky_decompose_def try_fold_fails cholesky_row_fails split: if_splits)

text \<open>The shape of \<open>L\<close> and its zeros above the diagonal, for any entries of \<open>A\<close>.\<close>

lemma cholesky_cell_shape:
  assumes "chol_shape n i j L" and "j \<le> i" and "i < n" and "cholesky_cell A L i j = Inr L'"
  shows "chol_shape n i (Suc j) L'"
proof -
  from assms(4) obtain v where "L' = set_cell L i j v"
    by (auto simp: cholesky_cell_def Let_def split: if_splits)
  with assms(1-3) show ?thesis
    by (auto simp: chol_shape_def shaped_set_cell cell_set_cell filled_def)
qed

lemma cholesky_shape_final:
  assumes "rows A = cols A" and "cholesky_decompose A = Inr L"
  shows "chol_shape (rows A) (rows A) 0 L"
proof (rule try_fold_invariant [where P = "\<lambda>i t. chol_shape (rows A) i 0 t"])
  show "try_fold (cholesky_row A) [0..<rows A] (Matrix_zero (rows A) (rows A)) = Inr L"
    using assms by (simp add: cholesky_decompose_def)
  show "chol_shape (rows A) 0 0 (Matrix_zero (rows A) (rows A))"
    by (simp add: chol_shape_def shaped_zero cell_zero)
next
  fix i t t'
  assume i: "i < rows A" and inv: "chol_shape (rows A) i 0 t" and row: "cholesky_row A t i = Inr t'"
  have "chol_shape (rows A) i (Suc i) t'"
  proof (rule try_fold_invariant [where P = "\<lambda>j t. chol_shape (rows A) i j t"])
    show "try_fold (\<lambda>L j. cholesky_cell A L i j) [0..<Suc i] t = Inr t'"
      using row by (simp only: cholesky_row_def)
    show "chol_shape (rows A) i 0 t" by (rule inv)
  next
    fix k u u'
    assume "k < Suc i" "chol_shape (rows A) i k u" "cholesky_cell A u i k = Inr u'"
    then show "chol_shape (rows A) i (Suc k) u'"
      using cholesky_cell_shape [of "rows A" i k u A u'] i by simp
  qed
  then show "chol_shape (rows A) (Suc i) 0 t'"
    by (simp add: chol_shape_def filled_row_done)
qed

lemma cholesky_lower_triangular:
  assumes "rows A = cols A" and "cholesky_decompose A = Inr L"
  shows "shaped (rows A) (rows A) L \<and> lower_triangular L"
  using cholesky_shape_final [OF assms]
  by (auto simp: chol_shape_def lower_triangular_def list_all_iff filled_def shaped_def)

text \<open>The equations of the factorisation, for any entries of \<open>A\<close>.\<close>

lemma cholesky_sum_cong:
  "(\<And>k. k < j \<Longrightarrow> cell L' i k = cell L i k \<and> cell L' j k = cell L j k) \<Longrightarrow>
     cholesky_sum L' i j = cholesky_sum L i j"
  unfolding cholesky_sum_def by (rule foldl_cong) auto

lemma cholesky_cell_eqs:
  assumes inv: "chol_eqs A i j L" and ji: "j \<le> i" and i: "i < rows A"
    and step: "cholesky_cell A L i j = Inr L'"
  shows "chol_eqs A i (Suc j) L'"
proof -
  let ?n = "rows A"
  have j: "j < ?n" using ji i by simp
  have sh: "shaped ?n ?n L"
    and eqs: "\<forall>r<?n. \<forall>c<?n. filled i j r c \<longrightarrow> cell L r c = cholesky_entry A L r c"
    and pos: "\<forall>r<?n. filled i j r r \<longrightarrow>
                \<not> dle (dsub (cell A r r) (cholesky_sum L r r)) (Fin 0)"
    using inv by (simp_all add: chol_eqs_def)
  have L': "L' = set_cell L i j (cholesky_entry A L i j)"
    and d: "i = j \<longrightarrow> \<not> dle (dsub (cell A i i) (cholesky_sum L i i)) (Fin 0)"
    using step
    by (auto simp: cholesky_cell_def cholesky_entry_def cell_def [of A] Let_def
        split: if_splits)
  have cell': "cell L' r c = (if r = i \<and> c = j then cholesky_entry A L i j else cell L r c)"
    for r c
    unfolding L' using sh i j by (rule cell_set_cell)
  have sums: "cholesky_sum L' r c = cholesky_sum L r c" if "filled i (Suc j) r c" for r c
  proof (rule cholesky_sum_cong)
    fix k assume "k < c"
    with that ji show "cell L' r k = cell L r k \<and> cell L' c k = cell L c k"
      by (auto simp: cell' filled_def)
  qed
  have entry: "cholesky_entry A L' r c = cholesky_entry A L r c"
    if "filled i (Suc j) r c" for r c
    using that ji sums [OF that] by (auto simp: cholesky_entry_def cell' filled_def)
  show ?thesis
    unfolding chol_eqs_def
  proof (intro conjI allI impI)
    show "shaped ?n ?n L'" unfolding L' using sh by (rule shaped_set_cell)
  next
    fix r c assume r: "r < ?n" and c: "c < ?n" and f: "filled i (Suc j) r c"
    show "cell L' r c = cholesky_entry A L' r c"
    proof (cases "r = i \<and> c = j")
      case True
      then show ?thesis using entry [OF f] by (simp add: cell')
    next
      case False
      with f have "filled i j r c" by (auto simp: filled_def)
      with eqs r c have "cell L r c = cholesky_entry A L r c" by simp
      with False show ?thesis using entry [OF f] by (simp add: cell')
    qed
  next
    fix r assume r: "r < ?n" and f: "filled i (Suc j) r r"
    show "\<not> dle (dsub (cell A r r) (cholesky_sum L' r r)) (Fin 0)"
    proof (cases "r = i \<and> r = j")
      case True
      then show ?thesis using d sums [OF f] by simp
    next
      case False
      with f have "filled i j r r" by (auto simp: filled_def)
      with pos r show ?thesis using sums [OF f] by simp
    qed
  qed
qed

lemma cholesky_eqs_final:
  assumes "rows A = cols A" and "cholesky_decompose A = Inr L"
  shows "chol_eqs A (rows A) 0 L"
proof (rule try_fold_invariant [where P = "\<lambda>i t. chol_eqs A i 0 t"])
  show "try_fold (cholesky_row A) [0..<rows A] (Matrix_zero (rows A) (rows A)) = Inr L"
    using assms by (simp add: cholesky_decompose_def)
  show "chol_eqs A 0 0 (Matrix_zero (rows A) (rows A))"
    by (simp add: chol_eqs_def shaped_zero filled_def)
next
  fix i t t'
  assume i: "i < rows A" and inv: "chol_eqs A i 0 t" and row: "cholesky_row A t i = Inr t'"
  have "chol_eqs A i (Suc i) t'"
  proof (rule try_fold_invariant [where P = "\<lambda>j t. chol_eqs A i j t"])
    show "try_fold (\<lambda>L j. cholesky_cell A L i j) [0..<Suc i] t = Inr t'"
      using row by (simp only: cholesky_row_def)
    show "chol_eqs A i 0 t" by (rule inv)
  next
    fix k u u'
    assume "k < Suc i" "chol_eqs A i k u" "cholesky_cell A u i k = Inr u'"
    then show "chol_eqs A i (Suc k) u'"
      using cholesky_cell_eqs [of A i k u u'] i by simp
  qed
  then show "chol_eqs A (Suc i) 0 t'"
    by (simp add: chol_eqs_def filled_row_done)
qed

lemma cholesky_factor_equations:
  assumes "rows A = cols A" and "cholesky_decompose A = Inr L"
  shows "factor_equations A L"
  using cholesky_eqs_final [OF assms]
  by (auto simp: chol_eqs_def factor_equations_def list_all_iff filled_def)

text \<open>Factorisations of two-by-two matrices.\<close>

lemma cholesky_ex_nonsym: "cholesky_decompose (mat2 1 2 0 1) = Inr (mat2 1 0 0 1)"
  by (simp add: cholesky_decompose_def cholesky_row_def cholesky_cell_def cholesky_sum_def
      mat2_def Matrix_zero_def set_cell_def cell_def numeral_2_eq_2 Let_def)

lemma cholesky_ex_sym: "cholesky_decompose (mat2 4 2 2 5) = Inr (mat2 2 0 1 2)"
  by (simp add: cholesky_decompose_def cholesky_row_def cholesky_cell_def cholesky_sum_def
      mat2_def Matrix_zero_def set_cell_def cell_def numeral_2_eq_2 Let_def)

lemma cholesky_ex_fail: "cholesky_decompose (mat2 1 2 2 1) = Inl NotPositiveDefinite"
  by (simp add: cholesky_decompose_def cholesky_row_def cholesky_cell_def cholesky_sum_def
      mat2_def Matrix_zero_def set_cell_def cell_def numeral_2_eq_2 Let_def)

lemma cholesky_ex_inf:
  "cholesky_decompose (dmat2 PInf (Fin 1) (Fin 1) (Fin 1)) =
     Inr (dmat2 PInf (Fin 0) (Fin 0) (Fin 1))"
  by (simp add: cholesky_decompose_def cholesky_row_def cholesky_cell_def cholesky_sum_def
      dmat2_def Matrix_zero_def set_cell_def cell_def numeral_2_eq_2 Let_def dle_def dsub_def)

lemma diagonal_term_ex: "diagonal_term (mat2 1 2 2 1) 1 = Inr (Fin (- 3))"
  by (simp add: diagonal_term_def cholesky_row_def cholesky_cell_def cholesky_sum_def
      mat2_def Matrix_zero_def set_cell_def cell_def numeral_2_eq_2 Let_def)

lemma transpose_dmat2: "transpose_m (dmat2 a b c d) = dmat2 a c b d"
  by (simp add: transpose_m_def dmat2_def Matrix_zero_def set_cell_def numeral_2_eq_2)

lemma dot_dmat2:
  "dot (dmat2 a b c d) (dmat2 a' b' c' d') =
     Inr (dmat2 (dadd (dmul a a') (dmul b c')) (dadd (dmul a b') (dmul b d'))
                (dadd (dmul c a') (dmul d c')) (dadd (dmul c b') (dmul d d')))"
  by (simp add: dot_def dmat2_def Matrix_zero_def set_cell_def cell_def numeral_2_eq_2)

lemma mat2_dmat2: "mat2 a b c d = dmat2 (Fin a) (Fin b) (Fin c) (Fin d)"
  by (simp add: mat2_def dmat2_def)

text \<open>
  C5, as the claim states it, fails. The factorisation reads \<open>A\<close> on and below its
  diagonal only: for the square matrix with rows \<open>[1, 2]\<close> and \<open>[0, 1]\<close> it succeeds and
  returns the identity, whose product with its own transpose is the identity, not \<open>A\<close>.
  Nor is a symmetric \<open>A\<close> enough: for the rows \<open>[+\<infinity>, 1]\<close> and \<open>[1, 1]\<close> it succeeds with
  the factor of rows \<open>[+\<infinity>, 0]\<close> and \<open>[0, 1]\<close>, whose product with its own transpose has
  NaN off the diagonal.
\<close>

theorem cholesky_counterexample:
  "cholesky_decompose (mat2 1 2 0 1) = Inr (mat2 1 0 0 1) \<and>
   dot (mat2 1 0 0 1) (transpose_m (mat2 1 0 0 1)) = Inr (mat2 1 0 0 1) \<and>
   mat2 1 0 0 1 \<noteq> mat2 1 2 0 1 \<and>
   symmetric (dmat2 PInf (Fin 1) (Fin 1) (Fin 1)) \<and>
   cholesky_decompose (dmat2 PInf (Fin 1) (Fin 1) (Fin 1)) =
     Inr (dmat2 PInf (Fin 0) (Fin 0) (Fin 1)) \<and>
   dot (dmat2 PInf (Fin 0) (Fin 0) (Fin 1)) (transpose_m (dmat2 PInf (Fin 0) (Fin 0) (Fin 1))) =
     Inr (dmat2 PInf NaN NaN (Fin 1)) \<and>
   dmat2 PInf NaN NaN (Fin 1) \<noteq> dmat2 PInf (Fin 1) (Fin 1) (Fin 1)"
proof -
  have "dot (mat2 1 0 0 1) (transpose_m (mat2 1 0 0 1)) = Inr (mat2 1 0 0 1)"
    by (simp add: mat2_dmat2 transpose_dmat2 dot_dmat2)
  moreover have "dot (dmat2 PInf (Fin 0) (Fin 0) (Fin 1))
                   (transpose_m (dmat2 PInf (Fin 0) (Fin 0) (Fin 1))) =
                 Inr (dmat2 PInf NaN NaN (Fin 1))"
    by (simp add: transpose_dmat2 dot_dmat2)
  moreover have "mat2 1 0 0 1 \<noteq> mat2 1 2 0 1"
    by (simp add: mat2_def)
  moreover have "dmat2 PInf NaN NaN (Fin 1) \<noteq> dmat2 PInf (Fin 1) (Fin 1) (Fin 1)"
    by (simp add: dmat2_def)
  moreover have "symmetric (dmat2 PInf (Fin 1) (Fin 1) (Fin 1))"
    by (simp add: dmat2_def symmetric_def cell_def numeral_2_eq_2)
  ultimately show ?thesis
    using cholesky_ex_nonsym cholesky_ex_inf by simp
qed

text \<open>
  C5, amended. \<open>cholesky_decompose\<close> fails exactly when \<open>A\<close> is not square or, for some
  row, the factorisation reaches the diagonal term of that row and finds it at most \<open>0\<close>
  (with the error for a matrix that is not square in the first case and the one for a
  matrix that is not positive-definite in the second). When it succeeds, \<open>L\<close> is a matrix
  of the size of \<open>A\<close> with \<open>0\<close> everywhere above the diagonal, and on and below the
  diagonal \<open>L\<close> satisfies the equations of the factorisation as the program evaluates
  them: \<open>L(i, i)\<close> is the root of \<open>A(i, i)\<close> less the sum of the \<open>L(i, k) * L(i, k)\<close> for
  \<open>k < i\<close>, a term that is not at most \<open>0\<close>, and \<open>L(i, j)\<close> for \<open>j < i\<close> is \<open>A(i, j)\<close> less
  the sum of the \<open>L(i, k) * L(j, k)\<close> for \<open>k < j\<close>, over \<open>L(j, j)\<close>. (That the product of
  \<open>L\<close> and its transpose is \<open>A\<close> is not said.)
\<close>

theorem cholesky_decompose_correct:
  "((\<exists>e. cholesky_decompose A = Inl e) \<longleftrightarrow>
      rows A \<noteq> cols A \<or> (\<exists>i<rows A. \<exists>v. diagonal_term A i = Inr v \<and> dle v (Fin 0))) \<and>
   (cholesky_decompose A = Inl e \<longrightarrow>
      e = (if rows A \<noteq> cols A then CholeskyNotSquare else NotPositiveDefinite)) \<and>
   (cholesky_decompose A = Inr L \<longrightarrow>
      matrix_ok L \<and> rows L = rows A \<and> cols L = rows A \<and> lower_triangular L \<and>
      factor_equations A L)"
proof (intro conjI impI)
  show "(\<exists>e. cholesky_decompose A = Inl e) \<longleftrightarrow>
      rows A \<noteq> cols A \<or> (\<exists>i<rows A. \<exists>v. diagonal_term A i = Inr v \<and> dle v (Fin 0))"
    by (rule cholesky_fails)
next
  assume "cholesky_decompose A = Inl e"
  then show "e = (if rows A \<noteq> cols A then CholeskyNotSquare else NotPositiveDefinite)"
    by (rule cholesky_error)
next
  assume ok: "cholesky_decompose A = Inr L"
  then have sq: "rows A = cols A"
    by (auto simp: cholesky_decompose_def split: if_splits)
  from cholesky_lower_triangular [OF sq ok]
  show "matrix_ok L" "rows L = rows A" "cols L = rows A" "lower_triangular L"
    by (auto simp: matrix_ok_shaped shaped_def)
  from sq ok show "factor_equations A L" by (rule cholesky_factor_equations)
qed

text \<open>
  The symmetric matrix with rows \<open>[4, 2]\<close> and \<open>[2, 5]\<close> has the factor with rows
  \<open>[2, 0]\<close> and \<open>[1, 2]\<close>; the one with rows \<open>[1, 2]\<close> and \<open>[2, 1]\<close> has the diagonal term
  \<open>-3\<close> in its second row and is refused.
\<close>

theorem cholesky_decompose_correct_witness:
  "cholesky_decompose (mat2 4 2 2 5) = Inr (mat2 2 0 1 2) \<and>
   matrix_ok (mat2 2 0 1 2) \<and> lower_triangular (mat2 2 0 1 2) \<and>
   factor_equations (mat2 4 2 2 5) (mat2 2 0 1 2) \<and>
   cholesky_entry (mat2 4 2 2 5) (mat2 2 0 1 2) 1 0 = Fin 1 \<and>
   cholesky_entry (mat2 4 2 2 5) (mat2 2 0 1 2) 1 1 = Fin 2 \<and>
   rows (mat2 1 2 2 1) = cols (mat2 1 2 2 1) \<and>
   diagonal_term (mat2 1 2 2 1) 1 = Inr (Fin (- 3)) \<and> dle (Fin (- 3)) (Fin 0) \<and>
   cholesky_decompose (mat2 1 2 2 1) = Inl NotPositiveDefinite"
  using cholesky_decompose_correct [where A = "mat2 4 2 2 5" and L = "mat2 2 0 1 2"]
    cholesky_decompose_correct [where A = "mat2 1 2 2 1" and e = NotPositiveDefinite]
    cholesky_ex_sym cholesky_ex_fail diagonal_term_ex
  by (auto simp: mat2_def cholesky_entry_def cholesky_sum_def cell_def numeral_2_eq_2)

end
